theory Spec2Isabelle
  imports Main "HOL-Library.Word"
begin

section \<open>Mempool tracing schema (pkg/trace/schema/mempool.go)\<close>

subsection \<open>Data\<close>

type_synonym bytes = "8 word list"

text \<open>
  A trace point's field values are Go \<open>interface{}\<close> values. The schema stores three
  kinds: a plain string, a peer identity (\<open>p2p.ID\<close>, a named string type) and an
  \<open>int\<close> (the length of a byte slice).
\<close>

datatype field_value = StringValue string | IDValue string | IntValue int

text \<open>
  A point as handed to \<open>WritePoint\<close>: the table (the "measurement") and the map of
  fields, Go's \<open>map[string]interface{}\<close>.
\<close>

record Point =
  pt_table :: string
  pt_fields :: "string \<rightharpoonup> field_value"

text \<open>
  Modelled from the spec: \<open>trace.Client\<close> (package pkg/trace) is not among the sources.
  The spec calls it a write-only sink guarded by an "is this table being traced" check;
  the comments of mempool.go say that \<open>WritePoint\<close> repeats the check of
  \<open>IsCollecting\<close>. The client is the list of tables it collects and the points written
  so far; whatever else a client holds is the record's extension.
\<close>

record Client =
  tables :: "string list"
  points :: "Point list"

definition IsCollecting :: "'a Client_scheme \<Rightarrow> string \<Rightarrow> bool" where
  "IsCollecting client t = (t \<in> set (tables client))"

definition WritePoint ::
  "string \<Rightarrow> (string \<rightharpoonup> field_value) \<Rightarrow> 'a Client_scheme \<Rightarrow> unit \<times> 'a Client_scheme" where
  "WritePoint t fs client =
     (if \<not> IsCollecting client t then ((), client)
      else ((), client\<lparr>points := points client @ [\<lparr>pt_table = t, pt_fields = fs\<rparr>]\<rparr>))"

text \<open>
  Constants of package schema that mempool.go uses and that are declared in files not
  among the sources; they are parameters of the model. Go rejects a map literal with two
  equal constant keys, so the keys of one literal are pairwise distinct.
\<close>

record schema_consts =
  RoundStateTable :: string
  PeerFieldKey :: string
  TransferTypeFieldKey :: string

text \<open>
  Library functions that mempool.go calls and that are not among the sources:
  \<open>types.Tx(tx).Hash()\<close>, the digest of the raw bytes, and \<open>bytes.HexBytes(b).String()\<close>,
  the hex string of a byte slice.
\<close>

record tx_lib =
  Tx_Hash :: "bytes \<Rightarrow> bytes"
  HexBytes_String :: "bytes \<Rightarrow> string"

subsection \<open>Constants\<close>

definition MempoolTxTable :: string where
  "MempoolTxTable = ''mempool_tx''"

definition TxFieldKey :: string where
  "TxFieldKey = ''tx''"

definition SizeFieldKey :: string where
  "SizeFieldKey = ''size''"

definition VersionFieldKey :: string where
  "VersionFieldKey = ''version''"

definition V1VersionFieldValue :: string where
  "V1VersionFieldValue = ''v1''"

definition CatVersionFieldValue :: string where
  "CatVersionFieldValue = ''cat''"

definition MempoolPeerStateTable :: string where
  "MempoolPeerStateTable = ''mempool_peer_state''"

definition StateUpdateFieldKey :: string where
  "StateUpdateFieldKey = ''update''"

definition SeenTxStateUpdateFieldValue :: string where
  "SeenTxStateUpdateFieldValue = ''seen_tx''"

definition WantTxStateUpdateFieldValue :: string where
  "WantTxStateUpdateFieldValue = ''want_tx''"

definition RemovedTxStateUpdateFieldValue :: string where
  "RemovedTxStateUpdateFieldValue = ''removed_tx''"

definition AddedTxStateUpdateFieldValue :: string where
  "AddedTxStateUpdateFieldValue = ''added_tx''"

text \<open>The string constants that mempool.go declares (\<open>LocalTable\<close> is commented out).\<close>

definition mempool_schema_constants :: "string list" where
  "mempool_schema_constants =
     [MempoolTxTable, TxFieldKey, SizeFieldKey, VersionFieldKey, V1VersionFieldValue,
      CatVersionFieldValue, MempoolPeerStateTable, StateUpdateFieldKey,
      SeenTxStateUpdateFieldValue, WantTxStateUpdateFieldValue,
      RemovedTxStateUpdateFieldValue, AddedTxStateUpdateFieldValue]"

subsection \<open>Operations\<close>

definition MempoolTables :: "string list" where
  "MempoolTables = [MempoolTxTable, MempoolPeerStateTable]"

text \<open>
  The map literal of \<open>WriteMempoolTx\<close>, its entries in the order of the source.
\<close>

definition mempool_tx_fields ::
  "schema_consts \<Rightarrow> 'l tx_lib_scheme \<Rightarrow> string \<Rightarrow> bytes \<Rightarrow> string \<Rightarrow> string \<Rightarrow> (string \<rightharpoonup> field_value)" where
  "mempool_tx_fields k lib peer tx transferType version =
     [TxFieldKey \<mapsto> StringValue (HexBytes_String lib (Tx_Hash lib tx)),
      PeerFieldKey k \<mapsto> IDValue peer,
      SizeFieldKey \<mapsto> IntValue (int (length tx)),
      TransferTypeFieldKey k \<mapsto> StringValue transferType,
      VersionFieldKey \<mapsto> StringValue version]"

definition WriteMempoolTx ::
  "schema_consts \<Rightarrow> 'l tx_lib_scheme \<Rightarrow> 'a Client_scheme \<Rightarrow> string \<Rightarrow> bytes \<Rightarrow> string \<Rightarrow> string
     \<Rightarrow> unit \<times> 'a Client_scheme" where
  "WriteMempoolTx k lib client peer tx transferType version =
     (if \<not> IsCollecting client MempoolTxTable then ((), client)
      else WritePoint MempoolTxTable
             (mempool_tx_fields k lib peer tx transferType version) client)"

definition mempool_peer_state_fields ::
  "schema_consts \<Rightarrow> string \<Rightarrow> string \<Rightarrow> string \<Rightarrow> string \<Rightarrow> (string \<rightharpoonup> field_value)" where
  "mempool_peer_state_fields k peer stateUpdate transferType version =
     [PeerFieldKey k \<mapsto> IDValue peer,
      TransferTypeFieldKey k \<mapsto> StringValue transferType,
      StateUpdateFieldKey \<mapsto> StringValue stateUpdate,
      VersionFieldKey \<mapsto> StringValue version]"

text \<open>
  \<open>WriteMempoolPeerState\<close> asks for, and writes to, \<open>RoundStateTable\<close>, as the
  source does.
\<close>

definition WriteMempoolPeerState ::
  "schema_consts \<Rightarrow> 'a Client_scheme \<Rightarrow> string \<Rightarrow> string \<Rightarrow> string \<Rightarrow> string
     \<Rightarrow> unit \<times> 'a Client_scheme" where
  "WriteMempoolPeerState k client peer stateUpdate transferType version =
     (if \<not> IsCollecting client (RoundStateTable k) then ((), client)
      else WritePoint (RoundStateTable k)
             (mempool_peer_state_fields k peer stateUpdate transferType version) client)"

text \<open>The keys of the map literal of \<open>WriteMempoolTx\<close>, which Go requires distinct.\<close>

definition mempool_tx_keys :: "schema_consts \<Rightarrow> string list" where
  "mempool_tx_keys k =
     [TxFieldKey, PeerFieldKey k, SizeFieldKey, TransferTypeFieldKey k, VersionFieldKey]"


text \<open>
  What a client holds besides the points written to the sink: the tables it collects and
  the rest of its state.
\<close>

definition non_sink :: "'a Client_scheme \<Rightarrow> string list \<times> 'a" where
  "non_sink client = (tables client, Client.more client)"

section \<open>Transaction queries of the RPC (rpc/core/tx.go)\<close>

subsection \<open>Data\<close>

text \<open>
  Go's \<open>int\<close> and \<open>int64\<close> are 64-bit words read as two's complement (\<open>sint\<close>); a
  transaction's index in its block is a \<open>uint32\<close>.
\<close>

type_synonym go_int = "64 word"

text \<open>
  The errors that tx.go creates itself, and \<open>External\<close> for an error value handed over
  by a collaborator (the indexer, the query parser, the block store, the application).
\<close>

datatype error =
    IndexingDisabled
  | TxNotFound bytes
  | QueryTooLong
  | BadOrderBy
  | NoBlockFound go_int
  | MissingBlockPart go_int nat
  | External string

text \<open>
  \<open>abci.TxResult\<close>, the record the indexer stores; \<open>'r\<close> is the application's
  \<open>ResponseDeliverTx\<close>. The fields carry the prefix \<open>txr_\<close>, those of
  \<open>ctypes.ResultTx\<close> the prefix \<open>rtx_\<close>, since both structs name their fields alike.
\<close>

record 'r TxResult =
  txr_Height :: go_int
  txr_Index :: "32 word"
  txr_Tx :: bytes
  txr_Result :: 'r

record ('r, 'sp) ResultTx =
  rtx_Hash :: bytes
  rtx_Height :: go_int
  rtx_Index :: "32 word"
  rtx_TxResult :: 'r
  rtx_Tx :: bytes
  rtx_Proof :: 'sp

record ('r, 'sp) ResultTxSearch =
  Txs :: "('r, 'sp) ResultTx list"
  TotalCount :: go_int

text \<open>
  The indexer behind \<open>env.TxIndexer\<close>: the null indexer (\<open>*null.TxIndex\<close>, indexing
  disabled), or one that answers \<open>Get\<close> and \<open>Search\<close>. Both return Go's pair of a
  result and an error; \<open>Get\<close>'s result is a pointer, \<open>None\<close> when nil.
\<close>

datatype ('q, 'r) TxIndexer =
    NullTxIndex
  | Indexer "bytes \<Rightarrow> 'r TxResult option \<times> error option"
            "'q \<Rightarrow> 'r TxResult list \<times> error option"

text \<open>
  The block store, as far as \<open>loadRawBlock\<close> reads it: a block's meta data gives the
  number of its parts (\<open>BlockID.PartSetHeader.Total\<close>, a \<open>uint32\<close>), a part gives its
  bytes. A nil pointer is \<open>None\<close>.
\<close>

record BlockMeta =
  Total :: "32 word"

record Part =
  Bytes :: bytes

record BlockStore =
  LoadBlockMeta :: "go_int \<Rightarrow> BlockMeta option"
  LoadBlockPart :: "go_int \<Rightarrow> nat \<Rightarrow> Part option"

record RequestQuery =
  Data :: bytes
  Path :: string

record ResponseQuery =
  Value :: bytes
  Log :: string

text \<open>The environment that \<open>GetEnvironment()\<close> returns, as far as tx.go reads it.\<close>

record ('q, 'r) Environment =
  TxIndexer :: "('q, 'r) TxIndexer"
  BlockStore :: BlockStore
  QuerySync :: "RequestQuery \<Rightarrow> ResponseQuery \<times> error option"

text \<open>
  What tx.go calls and the sources do not hold, as parameters: the query parser
  \<open>query.New\<close>; the constant \<open>maxQueryLength\<close> and the pagination helpers
  \<open>validatePerPage\<close>, \<open>validatePage\<close> and \<open>validateSkipCount\<close> of package core; the
  path \<open>fmt.Sprintf(consts.TxInclusionProofQueryPath, index)\<close>; the decoding of a share
  proof (\<open>Unmarshal\<close>, then \<open>types.ShareProofFromProto\<close>) and the zero value of
  \<open>types.ShareProof\<close>. A nil \<open>*int\<close> is \<open>None\<close>.
\<close>

record ('q, 'p, 'sp) rpc_lib = tx_lib +
  query_New :: "string \<Rightarrow> 'q \<times> error option"
  maxQueryLength :: int
  validatePerPage :: "go_int option \<Rightarrow> go_int"
  validatePage :: "go_int option \<Rightarrow> go_int \<Rightarrow> go_int \<Rightarrow> go_int \<times> error option"
  validateSkipCount :: "go_int \<Rightarrow> go_int \<Rightarrow> go_int"
  TxInclusionProofQueryPath :: "32 word \<Rightarrow> string"
  Unmarshal :: "bytes \<Rightarrow> 'p \<times> error option"
  ShareProofFromProto :: "'p \<Rightarrow> 'sp \<times> error option"
  ShareProof_zero :: 'sp

text \<open>A run of a function that can panic either panics or returns.\<close>

datatype 'a outcome = Panics | Returns 'a

subsection \<open>Library functions\<close>

text \<open>
  Modelled from the spec: \<open>MinInt\<close> of libs/math is not among the sources. It is the
  smaller of its two arguments; the doc comment of \<open>TxSearch\<close> ("maximum ?per_page
  entries") rests on that.
\<close>

definition MinInt :: "go_int \<Rightarrow> go_int \<Rightarrow> go_int" where
  "MinInt a b = (if sint a < sint b then a else b)"

text \<open>
  \<open>sort.Slice(xs, less)\<close> of Go's standard library sorts \<open>xs\<close> by \<open>less\<close>. It is
  modelled by insertion; Go leaves the order of two elements open when neither is less
  than the other, here they keep their order.
\<close>

fun insert_by :: "('a \<Rightarrow> 'a \<Rightarrow> bool) \<Rightarrow> 'a \<Rightarrow> 'a list \<Rightarrow> 'a list" where
  "insert_by lt x [] = [x]"
| "insert_by lt x (y # ys) = (if lt y x then y # insert_by lt x ys else x # y # ys)"

definition sort_Slice :: "('a \<Rightarrow> 'a \<Rightarrow> bool) \<Rightarrow> 'a list \<Rightarrow> 'a list" where
  "sort_Slice lt xs = foldr (insert_by lt) xs []"

subsection \<open>loadRawBlock and proveTx\<close>

text \<open>
  The loop of \<open>loadRawBlock\<close> over the parts \<open>i = 0, ..., n - 1\<close>, where \<open>n\<close> is
  \<open>int(blockMeta.BlockID.PartSetHeader.Total)\<close>. A nil byte slice is the empty list.
\<close>

function loadParts :: "BlockStore \<Rightarrow> go_int \<Rightarrow> nat \<Rightarrow> nat \<Rightarrow> bytes \<Rightarrow> bytes \<times> error option" where
  "loadParts bs height n i buf =
     (if i < n then
        (case LoadBlockPart bs height i of
           None \<Rightarrow> ([], Some (MissingBlockPart height i))
         | Some part \<Rightarrow> loadParts bs height n (Suc i) (buf @ Bytes part))
      else (buf, None))"
  by pat_completeness auto
termination
  by (relation "measure (\<lambda>(bs, height, n, i, buf). n - i)") auto

definition loadRawBlock :: "BlockStore \<Rightarrow> go_int \<Rightarrow> bytes \<times> error option" where
  "loadRawBlock bs height =
     (case LoadBlockMeta bs height of
        None \<Rightarrow> ([], Some (NoBlockFound height))
      | Some blockMeta \<Rightarrow> loadParts bs height (unat (Total blockMeta)) 0 [])"

definition proveTx ::
  "('q, 'p, 'sp, 'l) rpc_lib_scheme \<Rightarrow> ('q, 'r, 'e) Environment_scheme \<Rightarrow> go_int \<Rightarrow> 32 word
     \<Rightarrow> 'sp \<times> error option" where
  "proveTx lib env height index =
     (case loadRawBlock (BlockStore env) height of
        (rawBlock, Some err) \<Rightarrow> (ShareProof_zero lib, Some err)
      | (rawBlock, None) \<Rightarrow>
          (case QuerySync env \<lparr>Data = rawBlock, Path = TxInclusionProofQueryPath lib index\<rparr> of
             (res, Some err) \<Rightarrow> (ShareProof_zero lib, Some err)
           | (res, None) \<Rightarrow>
               (case Unmarshal lib (Value res) of
                  (pShareProof, Some err) \<Rightarrow> (ShareProof_zero lib, Some err)
                | (pShareProof, None) \<Rightarrow>
                    (case ShareProofFromProto lib pShareProof of
                       (shareProof, Some err) \<Rightarrow> (shareProof, Some err)
                     | (shareProof, None) \<Rightarrow> (shareProof, None)))))"

subsection \<open>Tx\<close>

definition Tx ::
  "('q, 'p, 'sp, 'l) rpc_lib_scheme \<Rightarrow> ('q, 'r, 'e) Environment_scheme \<Rightarrow> bytes \<Rightarrow> bool
     \<Rightarrow> ('r, 'sp) ResultTx option \<times> error option" where
  "Tx lib env hash prove =
     (case TxIndexer env of
        NullTxIndex \<Rightarrow> (None, Some IndexingDisabled)
      | Indexer get search \<Rightarrow>
          (case get hash of
             (r, Some err) \<Rightarrow> (None, Some err)
           | (None, None) \<Rightarrow> (None, Some (TxNotFound hash))
           | (Some r, None) \<Rightarrow>
               (let height = txr_Height r; index = txr_Index r in
                if prove then
                  (case proveTx lib env height index of
                     (shareProof, Some err) \<Rightarrow> (None, Some err)
                   | (shareProof, None) \<Rightarrow>
                       (Some \<lparr>rtx_Hash = hash, rtx_Height = height, rtx_Index = index,
                              rtx_TxResult = txr_Result r, rtx_Tx = txr_Tx r,
                              rtx_Proof = shareProof\<rparr>, None))
                else
                  (Some \<lparr>rtx_Hash = hash, rtx_Height = height, rtx_Index = index,
                         rtx_TxResult = txr_Result r, rtx_Tx = txr_Tx r,
                         rtx_Proof = ShareProof_zero lib\<rparr>, None))))"

subsection \<open>TxSearch\<close>

text \<open>
  The two orders of the \<open>switch\<close> on \<open>orderBy\<close>, as the closures given to
  \<open>sort.Slice\<close> compare two results: by height (signed), then by index (unsigned).
\<close>

definition less_desc :: "'r TxResult \<Rightarrow> 'r TxResult \<Rightarrow> bool" where
  "less_desc ri rj =
     (if txr_Height ri = txr_Height rj then txr_Index rj < txr_Index ri
      else sint (txr_Height rj) < sint (txr_Height ri))"

definition less_asc :: "'r TxResult \<Rightarrow> 'r TxResult \<Rightarrow> bool" where
  "less_asc ri rj =
     (if txr_Height ri = txr_Height rj then txr_Index ri < txr_Index rj
      else sint (txr_Height ri) < sint (txr_Height rj))"

text \<open>
  The loop \<open>for i := skipCount; i < skipCount+pageSize; i++\<close>, with \<open>bound\<close> the value
  of \<open>skipCount+pageSize\<close>. Reading \<open>results[i]\<close> out of range panics; a failing
  \<open>proveTx\<close> ends the whole call with that error.
\<close>

lemma sint_succ_less:
  fixes i b :: go_int
  assumes "sint i < sint b"
  shows "sint (i + 1) = sint i + 1"
proof -
  have "- (2 ^ 63) \<le> sint i" using sint_ge [of i] by simp
  moreover have "sint b < 2 ^ 63" using sint_lt [of b] by simp
  ultimately have "signed_take_bit 63 (sint i + 1) = sint i + 1"
    using assms by (intro signed_take_bit_int_eq_self) auto
  then show ?thesis
    by (simp add: sint_word_add)
qed

function txSearchLoop ::
  "('q, 'p, 'sp, 'l) rpc_lib_scheme \<Rightarrow> ('q, 'r, 'e) Environment_scheme \<Rightarrow> 'r TxResult list
     \<Rightarrow> bool \<Rightarrow> go_int \<Rightarrow> go_int \<Rightarrow> ('r, 'sp) ResultTx list
     \<Rightarrow> (('r, 'sp) ResultTx list \<times> error option) outcome" where
  "txSearchLoop lib env results prove bound i apiResults =
     (if sint i < sint bound then
        (if sint i < 0 \<or> int (length results) \<le> sint i then Panics
         else
           (let r = results ! nat (sint i) in
            if prove then
              (case proveTx lib env (txr_Height r) (txr_Index r) of
                 (shareProof, Some err) \<Rightarrow> Returns ([], Some err)
               | (shareProof, None) \<Rightarrow>
                   txSearchLoop lib env results prove bound (i + 1)
                     (apiResults @
                        [\<lparr>rtx_Hash = Tx_Hash lib (txr_Tx r), rtx_Height = txr_Height r,
                          rtx_Index = txr_Index r, rtx_TxResult = txr_Result r,
                          rtx_Tx = txr_Tx r, rtx_Proof = shareProof\<rparr>]))
            else
              txSearchLoop lib env results prove bound (i + 1)
                (apiResults @
                   [\<lparr>rtx_Hash = Tx_Hash lib (txr_Tx r), rtx_Height = txr_Height r,
                     rtx_Index = txr_Index r, rtx_TxResult = txr_Result r,
                     rtx_Tx = txr_Tx r, rtx_Proof = ShareProof_zero lib\<rparr>])))
      else Returns (apiResults, None))"
  by pat_completeness auto
termination
  apply (relation "measure (\<lambda>(lib, env, results, prove, bound, i, apiResults).
                             nat (sint bound - sint i))")
    apply simp
   apply (simp add: sint_succ_less)
  apply (simp add: sint_succ_less)
  done

text \<open>
  \<open>TxSearch\<close>. \<open>make([]*ctypes.ResultTx, 0, pageSize)\<close> panics when \<open>pageSize\<close> is
  negative. The \<open>context\<close> handed to \<open>Search\<close> carries no data and is left out.
\<close>

definition TxSearch ::
  "('q, 'p, 'sp, 'l) rpc_lib_scheme \<Rightarrow> ('q, 'r, 'e) Environment_scheme \<Rightarrow> string \<Rightarrow> bool
     \<Rightarrow> go_int option \<Rightarrow> go_int option \<Rightarrow> string
     \<Rightarrow> (('r, 'sp) ResultTxSearch option \<times> error option) outcome" where
  "TxSearch lib env query prove pagePtr perPagePtr orderBy =
     (case TxIndexer env of
        NullTxIndex \<Rightarrow> Returns (None, Some IndexingDisabled)
      | Indexer get search \<Rightarrow>
          if int (length query) > maxQueryLength lib then Returns (None, Some QueryTooLong)
          else
            (case query_New lib query of
               (q, Some err) \<Rightarrow> Returns (None, Some err)
             | (q, None) \<Rightarrow>
                 (case search q of
                    (found, Some err) \<Rightarrow> Returns (None, Some err)
                  | (found, None) \<Rightarrow>
                      if orderBy \<noteq> ''desc'' \<and> orderBy \<noteq> ''asc'' \<and> orderBy \<noteq> []
                      then Returns (None, Some BadOrderBy)
                      else
                        (let results =
                               (if orderBy = ''desc'' then sort_Slice less_desc found
                                else sort_Slice less_asc found);
                             totalCount = (word_of_nat (length results) :: go_int);
                             perPage = validatePerPage lib perPagePtr
                         in
                           (case validatePage lib pagePtr perPage totalCount of
                              (page, Some err) \<Rightarrow> Returns (None, Some err)
                            | (page, None) \<Rightarrow>
                                (let skipCount = validateSkipCount lib page perPage;
                                     pageSize = MinInt perPage (totalCount - skipCount)
                                 in
                                   if sint pageSize < 0 then Panics
                                   else
                                     (case txSearchLoop lib env results prove
                                             (skipCount + pageSize) skipCount [] of
                                        Panics \<Rightarrow> Panics
                                      | Returns (apiResults, Some err) \<Rightarrow>
                                          Returns (None, Some err)
                                      | Returns (apiResults, None) \<Rightarrow>
                                          Returns
                                            (Some \<lparr>Txs = apiResults,
                                                   TotalCount = totalCount\<rparr>, None))))))))"

subsection \<open>The failure cases of Tx\<close>

text \<open>
  The four conditions under which \<open>Tx\<close> returns an error, each as a test on the
  environment and the arguments: indexing is disabled; the lookup of the indexer fails;
  the lookup succeeds and finds no record; a proof is asked for and \<open>proveTx\<close> fails for
  the record found.
\<close>

definition Tx_indexing_disabled :: "('q, 'r, 'e) Environment_scheme \<Rightarrow> bool" where
  "Tx_indexing_disabled env =
     (case TxIndexer env of NullTxIndex \<Rightarrow> True | Indexer get search \<Rightarrow> False)"

definition Tx_lookup_failed :: "('q, 'r, 'e) Environment_scheme \<Rightarrow> bytes \<Rightarrow> bool" where
  "Tx_lookup_failed env hash =
     (case TxIndexer env of
        NullTxIndex \<Rightarrow> False
      | Indexer get search \<Rightarrow> snd (get hash) \<noteq> None)"

definition Tx_no_record :: "('q, 'r, 'e) Environment_scheme \<Rightarrow> bytes \<Rightarrow> bool" where
  "Tx_no_record env hash =
     (case TxIndexer env of
        NullTxIndex \<Rightarrow> False
      | Indexer get search \<Rightarrow> snd (get hash) = None \<and> fst (get hash) = None)"

definition Tx_proof_failed ::
  "('q, 'p, 'sp, 'l) rpc_lib_scheme \<Rightarrow> ('q, 'r, 'e) Environment_scheme \<Rightarrow> bytes \<Rightarrow> bool
     \<Rightarrow> bool" where
  "Tx_proof_failed lib env hash prove =
     (case TxIndexer env of
        NullTxIndex \<Rightarrow> False
      | Indexer get search \<Rightarrow>
          (case get hash of
             (Some r, None) \<Rightarrow>
               prove \<and> snd (proveTx lib env (txr_Height r) (txr_Index r)) \<noteq> None
           | (Some r, Some err) \<Rightarrow> False
           | (None, err) \<Rightarrow> False))"

section \<open>The second copy of tx.go (unnamed/part_000)\<close>

text \<open>
  part_000 holds \<open>Tx\<close>, \<open>TxSearch\<close>, \<open>proveTx\<close> and \<open>loadRawBlock\<close> once more, with
  the imports \<open>libs/math\<close>, \<open>libs/pubsub/query\<close> and the proto types under the
  aliases \<open>cmtmath\<close>, \<open>cmtquery\<close> and \<open>cmtproto\<close>. Each function is translated again from
  that file, under its name with the suffix \<open>_part000\<close>; the packages behind the aliases
  are the same, so the parameters are the same.
\<close>

function loadParts_part000 :: "BlockStore \<Rightarrow> go_int \<Rightarrow> nat \<Rightarrow> nat \<Rightarrow> bytes \<Rightarrow> bytes \<times> error option" where
  "loadParts_part000 bs height n i buf =
     (if i < n then
        (case LoadBlockPart bs height i of
           None \<Rightarrow> ([], Some (MissingBlockPart height i))
         | Some part \<Rightarrow> loadParts_part000 bs height n (Suc i) (buf @ Bytes part))
      else (buf, None))"
  by pat_completeness auto
termination
  by (relation "measure (\<lambda>(bs, height, n, i, buf). n - i)") auto

definition loadRawBlock_part000 :: "BlockStore \<Rightarrow> go_int \<Rightarrow> bytes \<times> error option" where
  "loadRawBlock_part000 bs height =
     (case LoadBlockMeta bs height of
        None \<Rightarrow> ([], Some (NoBlockFound height))
      | Some blockMeta \<Rightarrow> loadParts_part000 bs height (unat (Total blockMeta)) 0 [])"

definition proveTx_part000 ::
  "('q, 'p, 'sp, 'l) rpc_lib_scheme \<Rightarrow> ('q, 'r, 'e) Environment_scheme \<Rightarrow> go_int \<Rightarrow> 32 word
     \<Rightarrow> 'sp \<times> error option" where
  "proveTx_part000 lib env height index =
     (case loadRawBlock_part000 (BlockStore env) height of
        (rawBlock, Some err) \<Rightarrow> (ShareProof_zero lib, Some err)
      | (rawBlock, None) \<Rightarrow>
          (case QuerySync env \<lparr>Data = rawBlock, Path = TxInclusionProofQueryPath lib index\<rparr> of
             (res, Some err) \<Rightarrow> (ShareProof_zero lib, Some err)
           | (res, None) \<Rightarrow>
               (case Unmarshal lib (Value res) of
                  (pShareProof, Some err) \<Rightarrow> (ShareProof_zero lib, Some err)
                | (pShareProof, None) \<Rightarrow>
                    (case ShareProofFromProto lib pShareProof of
                       (shareProof, Some err) \<Rightarrow> (shareProof, Some err)
                     | (shareProof, None) \<Rightarrow> (shareProof, None)))))"

definition Tx_part000 ::
  "('q, 'p, 'sp, 'l) rpc_lib_scheme \<Rightarrow> ('q, 'r, 'e) Environment_scheme \<Rightarrow> bytes \<Rightarrow> bool
     \<Rightarrow> ('r, 'sp) ResultTx option \<times> error option" where
  "Tx_part000 lib env hash prove =
     (case TxIndexer env of
        NullTxIndex \<Rightarrow> (None, Some IndexingDisabled)
      | Indexer get search \<Rightarrow>
          (case get hash of
             (r, Some err) \<Rightarrow> (None, Some err)
           | (None, None) \<Rightarrow> (None, Some (TxNotFound hash))
           | (Some r, None) \<Rightarrow>
               (let height = txr_Height r; index = txr_Index r in
                if prove then
                  (case proveTx_part000 lib env height index of
                     (shareProof, Some err) \<Rightarrow> (None, Some err)
                   | (shareProof, None) \<Rightarrow>
                       (Some \<lparr>rtx_Hash = hash, rtx_Height = height, rtx_Index = index,
                              rtx_TxResult = txr_Result r, rtx_Tx = txr_Tx r,
                              rtx_Proof = shareProof\<rparr>, None))
                else
                  (Some \<lparr>rtx_Hash = hash, rtx_Height = height, rtx_Index = index,
                         rtx_TxResult = txr_Result r, rtx_Tx = txr_Tx r,
                         rtx_Proof = ShareProof_zero lib\<rparr>, None))))"

definition less_desc_part000 :: "'r TxResult \<Rightarrow> 'r TxResult \<Rightarrow> bool" where
  "less_desc_part000 ri rj =
     (if txr_Height ri = txr_Height rj then txr_Index rj < txr_Index ri
      else sint (txr_Height rj) < sint (txr_Height ri))"

definition less_asc_part000 :: "'r TxResult \<Rightarrow> 'r TxResult \<Rightarrow> bool" where
  "less_asc_part000 ri rj =
     (if txr_Height ri = txr_Height rj then txr_Index ri < txr_Index rj
      else sint (txr_Height ri) < sint (txr_Height rj))"

function txSearchLoop_part000 ::
  "('q, 'p, 'sp, 'l) rpc_lib_scheme \<Rightarrow> ('q, 'r, 'e) Environment_scheme \<Rightarrow> 'r TxResult list
     \<Rightarrow> bool \<Rightarrow> go_int \<Rightarrow> go_int \<Rightarrow> ('r, 'sp) ResultTx list
     \<Rightarrow> (('r, 'sp) ResultTx list \<times> error option) outcome" where
  "txSearchLoop_part000 lib env results prove bound i apiResults =
     (if sint i < sint bound then
        (if sint i < 0 \<or> int (length results) \<le> sint i then Panics
         else
           (let r = results ! nat (sint i) in
            if prove then
              (case proveTx_part000 lib env (txr_Height r) (txr_Index r) of
                 (shareProof, Some err) \<Rightarrow> Returns ([], Some err)
               | (shareProof, None) \<Rightarrow>
                   txSearchLoop_part000 lib env results prove bound (i + 1)
                     (apiResults @
                        [\<lparr>rtx_Hash = Tx_Hash lib (txr_Tx r), rtx_Height = txr_Height r,
                          rtx_Index = txr_Index r, rtx_TxResult = txr_Result r,
                          rtx_Tx = txr_Tx r, rtx_Proof = shareProof\<rparr>]))
            else
              txSearchLoop_part000 lib env results prove bound (i + 1)
                (apiResults @
                   [\<lparr>rtx_Hash = Tx_Hash lib (txr_Tx r), rtx_Height = txr_Height r,
                     rtx_Index = txr_Index r, rtx_TxResult = txr_Result r,
                     rtx_Tx = txr_Tx r, rtx_Proof = ShareProof_zero lib\<rparr>])))
      else Returns (apiResults, None))"
  by pat_completeness auto
termination
  apply (relation "measure (\<lambda>(lib, env, results, prove, bound, i, apiResults).
                             nat (sint bound - sint i))")
    apply simp
   apply (simp add: sint_succ_less)
  apply (simp add: sint_succ_less)
  done

definition TxSearch_part000 ::
  "('q, 'p, 'sp, 'l) rpc_lib_scheme \<Rightarrow> ('q, 'r, 'e) Environment_scheme \<Rightarrow> string \<Rightarrow> bool
     \<Rightarrow> go_int option \<Rightarrow> go_int option \<Rightarrow> string
     \<Rightarrow> (('r, 'sp) ResultTxSearch option \<times> error option) outcome" where
  "TxSearch_part000 lib env query prove pagePtr perPagePtr orderBy =
     (case TxIndexer env of
        NullTxIndex \<Rightarrow> Returns (None, Some IndexingDisabled)
      | Indexer get search \<Rightarrow>
          if int (length query) > maxQueryLength lib then Returns (None, Some QueryTooLong)
          else
            (case query_New lib query of
               (q, Some err) \<Rightarrow> Returns (None, Some err)
             | (q, None) \<Rightarrow>
                 (case search q of
                    (found, Some err) \<Rightarrow> Returns (None, Some err)
                  | (found, None) \<Rightarrow>
                      if orderBy \<noteq> ''desc'' \<and> orderBy \<noteq> ''asc'' \<and> orderBy \<noteq> []
                      then Returns (None, Some BadOrderBy)
                      else
                        (let results =
                               (if orderBy = ''desc'' then sort_Slice less_desc_part000 found
                                else sort_Slice less_asc_part000 found);
                             totalCount = (word_of_nat (length results) :: go_int);
                             perPage = validatePerPage lib perPagePtr
                         in
                           (case validatePage lib pagePtr perPage totalCount of
                              (page, Some err) \<Rightarrow> Returns (None, Some err)
                            | (page, None) \<Rightarrow>
                                (let skipCount = validateSkipCount lib page perPage;
                                     pageSize = MinInt perPage (totalCount - skipCount)
                                 in
                                   if sint pageSize < 0 then Panics
                                   else
                                     (case txSearchLoop_part000 lib env results prove
                                             (skipCount + pageSize) skipCount [] of
                                        Panics \<Rightarrow> Panics
                                      | Returns (apiResults, Some err) \<Rightarrow>
                                          Returns (None, Some err)
                                      | Returns (apiResults, None) \<Rightarrow>
                                          Returns
                                            (Some \<lparr>Txs = apiResults,
                                                   TotalCount = totalCount\<rparr>, None))))))))"

section \<open>Transaction store and validity cache (spec, sections 3, 4.1, 4.2 and 6)\<close>

text \<open>
  Modelled from the spec: the mempool itself, its transaction store and its validity
  cache, is not among the sources (of the mempool they hold a benchmark of \<open>CheckTx\<close>
  and the tracing schema only). The definitions of this section follow the spec's data
  model and contracts:
  \<^item> the application validator, \<open>Check(rawTx)\<close>, answers \<open>Accept\<close> or \<open>Reject(reason)\<close>;
  \<^item> \<open>Validate(hash, raw)\<close> answers \<open>Valid\<close> or \<open>Invalid(reason)\<close> and is memoized per
    hash: the validator runs only for a hash without a cache entry;
  \<^item> \<open>Admit(record)\<close> answers \<open>Added\<close>, \<open>AlreadyPresent\<close> or \<open>Rejected(reason)\<close>; it
    inserts iff the hash is absent and the cache reports valid, and rejects an invalid
    transaction and one that exhausts the capacity of the pool; a transaction enters the
    store only after the cache has confirmed it, so the cache is asked first;
  \<^item> \<open>Remove(hash)\<close> removes the record if present and says whether it did;
  \<^item> \<open>Admit\<close> and \<open>Remove\<close> emit one observability event for each admission and
    removal.
  The capacity is a quota of bytes (the spec keeps a record's size "for quota
  accounting"). Calls are sequential here; the eviction of cache entries (\<open>Forget\<close>),
  which depends on the peers' states, is not part of this section.
\<close>

datatype check_result = Accept | Reject string

datatype verdict = Valid | Invalid string

datatype reject_reason = ValidationRejected string | CapacityExceeded

datatype admit_result = Added | AlreadyPresent | Rejected reject_reason

datatype store_event = AdmissionEvent bytes | RemovalEvent bytes

record TxRecord =
  tx_hash :: bytes
  tx_raw :: bytes
  tx_size :: nat
  admittedAt :: nat
  senderPeer :: "string option"

record CacheEntry =
  outcome :: verdict
  checkedAt :: nat

text \<open>
  The pool: the records in the order of their admission, the cache, the capacity, the
  logical clock that numbers admissions and validations, the raw bytes handed to the
  application validator (one entry for each invocation), and the events emitted.
\<close>

record Mempool =
  store :: "TxRecord list"
  cache :: "bytes \<rightharpoonup> CacheEntry"
  capacity :: nat
  clock :: nat
  validated :: "bytes list"
  emitted :: "store_event list"

text \<open>What the pool is given: the digest of \<open>tx_lib\<close> and the application validator.\<close>

record app = tx_lib +
  Check :: "bytes \<Rightarrow> check_result"

definition Contains :: "Mempool \<Rightarrow> bytes \<Rightarrow> bool" where
  "Contains m h = list_ex (\<lambda>r. tx_hash r = h) (store m)"

definition Iterate :: "Mempool \<Rightarrow> TxRecord list" where
  "Iterate m = store m"

definition used_bytes :: "Mempool \<Rightarrow> nat" where
  "used_bytes m = sum_list (map tx_size (store m))"

definition Validate :: "'a app_scheme \<Rightarrow> Mempool \<Rightarrow> bytes \<Rightarrow> bytes \<Rightarrow> verdict \<times> Mempool" where
  "Validate a m h raw =
     (case cache m h of
        Some entry \<Rightarrow> (outcome entry, m)
      | None \<Rightarrow>
          (let v = (case Check a raw of Accept \<Rightarrow> Valid | Reject reason \<Rightarrow> Invalid reason)
           in (v, m\<lparr>cache := (cache m)(h \<mapsto> \<lparr>outcome = v, checkedAt = clock m\<rparr>),
                     clock := Suc (clock m),
                     validated := validated m @ [raw]\<rparr>)))"

definition Admit :: "'a app_scheme \<Rightarrow> Mempool \<Rightarrow> TxRecord \<Rightarrow> admit_result \<times> Mempool" where
  "Admit a m record =
     (case Validate a m (tx_hash record) (tx_raw record) of
        (Invalid reason, m1) \<Rightarrow> (Rejected (ValidationRejected reason), m1)
      | (Valid, m1) \<Rightarrow>
          if Contains m1 (tx_hash record) then (AlreadyPresent, m1)
          else if capacity m1 < used_bytes m1 + tx_size record
          then (Rejected CapacityExceeded, m1)
          else (Added, m1\<lparr>store := store m1 @ [record\<lparr>admittedAt := clock m1\<rparr>],
                           clock := Suc (clock m1),
                           emitted := emitted m1 @ [AdmissionEvent (tx_hash record)]\<rparr>))"

text \<open>Admitting raw bytes: the record is keyed by the digest of the bytes.\<close>

definition AdmitRaw ::
  "'a app_scheme \<Rightarrow> Mempool \<Rightarrow> bytes \<Rightarrow> string option \<Rightarrow> admit_result \<times> Mempool" where
  "AdmitRaw a m raw sender =
     Admit a m \<lparr>tx_hash = Tx_Hash a raw, tx_raw = raw, tx_size = length raw,
                admittedAt = clock m, senderPeer = sender\<rparr>"

definition Remove :: "Mempool \<Rightarrow> bytes \<Rightarrow> bool \<times> Mempool" where
  "Remove m h =
     (if Contains m h
      then (True, m\<lparr>store := filter (\<lambda>r. tx_hash r \<noteq> h) (store m),
                     emitted := emitted m @ [RemovalEvent h]\<rparr>)
      else (False, m))"

definition empty_pool :: "nat \<Rightarrow> Mempool" where
  "empty_pool cap =
     \<lparr>store = [], cache = Map.empty, capacity = cap, clock = 0, validated = [], emitted = []\<rparr>"

section \<open>Peer reconciliation and dissemination (spec, sections 3, 4.3, 4.4, 5 and 7)\<close>

text \<open>
  Modelled from the spec: the dissemination engine and the peer reconciliation states
  are not among the sources. The definitions follow the spec:
  \<^item> a peer's state holds \<open>seenByPeer\<close>, \<open>wantedByPeer\<close>, \<open>wantedFromPeer\<close>, the
    \<open>protocolVersion\<close> fixed at the handshake, and the state of each pair of the peer and
    a hash: \<open>Unknown\<close>, \<open>Announced\<close>, \<open>Requested\<close>, \<open>Delivered\<close> or \<open>Removed\<close>;
  \<open>Delivered\<close> (the body is exchanged) is recorded in \<open>seenByPeer\<close> and is terminal;
  \<^item> the wire messages are \<open>SeenTx{hash}\<close>, \<open>WantTx{hash}\<close>, \<open>Tx{hash, body}\<close> and
    \<open>NotAvailable{hash}\<close>;
  \<^item> for a newly admitted transaction and every connected peer but its origin: a peer
    that has seen the hash is skipped, a push peer is sent the body and marked, a pull
    peer is sent \<open>SeenTx\<close> and left in \<open>Announced\<close>;
  \<^item> \<open>WantTx(h)\<close> from a peer: if the transaction is held, the pair goes to \<open>Requested\<close>,
    the body is sent at once and the pair goes to \<open>Delivered\<close>; a body is never sent to
    a peer that has seen the hash (the guard of the engine, and the spec's suppression
    of sends to a peer that knows the hash); if the transaction is not held, the peer is
    answered \<open>NotAvailable\<close> and the pair goes to \<open>Removed\<close>;
  \<^item> \<open>SeenTx(h)\<close> from a peer records the hash as seen by it and announces the pair;
  \<^item> \<open>Tx(h, body)\<close> from a peer is validated and admitted, the pair goes to
    \<open>Delivered\<close>; for a pair that is \<open>Delivered\<close> already it is a no-op;
  \<^item> \<open>Remove(h)\<close> at a block commit removes the record and takes every pair of \<open>h\<close>
    that is not terminal to \<open>Removed\<close>, dropping the hash from the peer's three sets;
  \<^item> a disconnect discards the peer's state; a message of a peer that is not connected
    is dropped;
  \<^item> the engine may ask a pull peer for an announced transaction it does not hold, as
    long as the peer's \<open>wantedFromPeer\<close> is below the budget; a request that times out
    falls back to \<open>Announced\<close>.
  The engine's reaction to an admission or a removal is taken in the same step as the
  admission or removal. The log records every connect, disconnect and message sent.
\<close>

datatype mode = Push | Pull

datatype pair_state = Unknown | Announced | Requested | Delivered | Removed

datatype message = SeenTx bytes | WantTx bytes | TxMsg bytes bytes | NotAvailable bytes

datatype log_entry = Connected string | Disconnected string | Sent string message

record PeerState =
  seenByPeer :: "bytes set"
  wantedByPeer :: "bytes set"
  wantedFromPeer :: "bytes set"
  protocolVersion :: mode
  pairState :: "bytes \<Rightarrow> pair_state"

record Engine =
  pool :: Mempool
  peers :: "(string \<times> PeerState) list"
  wantBudget :: nat
  sent_log :: "log_entry list"

text \<open>What reaches the engine: its inputs.\<close>

datatype input =
    Connect string mode
  | Disconnect string
  | Submit bytes
  | RecvTx string bytes
  | RecvSeenTx string bytes
  | RecvWantTx string bytes
  | Commit bytes
  | RequestTx string bytes
  | Timeout string bytes

definition new_peer :: "mode \<Rightarrow> PeerState" where
  "new_peer v = \<lparr>seenByPeer = {}, wantedByPeer = {}, wantedFromPeer = {},
                 protocolVersion = v, pairState = (\<lambda>h. Unknown)\<rparr>"

definition terminal :: "pair_state \<Rightarrow> bool" where
  "terminal st = (st = Delivered \<or> st = Removed)"

definition update_peer ::
  "string \<Rightarrow> (PeerState \<Rightarrow> PeerState) \<Rightarrow> (string \<times> PeerState) list
     \<Rightarrow> (string \<times> PeerState) list" where
  "update_peer p f ps = map (\<lambda>(q, s). if q = p then (q, f s) else (q, s)) ps"

definition mark_requested_by :: "bytes \<Rightarrow> PeerState \<Rightarrow> PeerState" where
  "mark_requested_by h s =
     s\<lparr>wantedByPeer := insert h (wantedByPeer s), pairState := (pairState s)(h := Requested)\<rparr>"

definition mark_delivered :: "bytes \<Rightarrow> PeerState \<Rightarrow> PeerState" where
  "mark_delivered h s =
     s\<lparr>seenByPeer := insert h (seenByPeer s),
       wantedByPeer := wantedByPeer s - {h},
       wantedFromPeer := wantedFromPeer s - {h},
       pairState := (pairState s)(h := Delivered)\<rparr>"

definition mark_removed :: "bytes \<Rightarrow> PeerState \<Rightarrow> PeerState" where
  "mark_removed h s =
     (if terminal (pairState s h) then s
      else s\<lparr>seenByPeer := seenByPeer s - {h},
             wantedByPeer := wantedByPeer s - {h},
             wantedFromPeer := wantedFromPeer s - {h},
             pairState := (pairState s)(h := Removed)\<rparr>)"

definition mark_announced :: "bytes \<Rightarrow> PeerState \<Rightarrow> PeerState" where
  "mark_announced h s = s\<lparr>pairState := (pairState s)(h := Announced)\<rparr>"

text \<open>
  The engine's choice for one peer and a newly admitted transaction: the peer's new state
  and the messages sent to it.
\<close>

definition disseminate_to ::
  "bytes \<Rightarrow> bytes \<Rightarrow> string option \<Rightarrow> string \<times> PeerState
     \<Rightarrow> (string \<times> PeerState) \<times> log_entry list" where
  "disseminate_to h body origin ps =
     (case ps of (p, s) \<Rightarrow>
        if origin = Some p \<or> h \<in> seenByPeer s then ((p, s), [])
        else (case protocolVersion s of
                Push \<Rightarrow> ((p, mark_delivered h s), [Sent p (TxMsg h body)])
              | Pull \<Rightarrow> ((p, mark_announced h s), [Sent p (SeenTx h)])))"

definition disseminate :: "bytes \<Rightarrow> bytes \<Rightarrow> string option \<Rightarrow> Engine \<Rightarrow> Engine" where
  "disseminate h body origin e =
     e\<lparr>peers := map (\<lambda>ps. fst (disseminate_to h body origin ps)) (peers e),
       sent_log := sent_log e @
                     concat (map (\<lambda>ps. snd (disseminate_to h body origin ps)) (peers e))\<rparr>"

definition admit_and_disseminate ::
  "'a app_scheme \<Rightarrow> Engine \<Rightarrow> bytes \<Rightarrow> string option \<Rightarrow> Engine" where
  "admit_and_disseminate a e raw origin =
     (case AdmitRaw a (pool e) raw origin of
        (Added, m) \<Rightarrow> disseminate (Tx_Hash a raw) raw origin (e\<lparr>pool := m\<rparr>)
      | (AlreadyPresent, m) \<Rightarrow> e\<lparr>pool := m\<rparr>
      | (Rejected reason, m) \<Rightarrow> e\<lparr>pool := m\<rparr>)"

definition body_of :: "Mempool \<Rightarrow> bytes \<Rightarrow> bytes option" where
  "body_of m h = map_option tx_raw (find (\<lambda>r. tx_hash r = h) (store m))"

definition on_want :: "Engine \<Rightarrow> string \<Rightarrow> PeerState \<Rightarrow> bytes \<Rightarrow> Engine" where
  "on_want e p s h =
     (case body_of (pool e) h of
        Some body \<Rightarrow>
          if h \<in> seenByPeer s then e
          else e\<lparr>peers := update_peer p (\<lambda>s. mark_delivered h (mark_requested_by h s)) (peers e),
                 sent_log := sent_log e @ [Sent p (TxMsg h body)]\<rparr>
      | None \<Rightarrow>
          e\<lparr>peers := update_peer p (mark_removed h) (peers e),
            sent_log := sent_log e @ [Sent p (NotAvailable h)]\<rparr>)"

definition on_seen :: "Engine \<Rightarrow> string \<Rightarrow> PeerState \<Rightarrow> bytes \<Rightarrow> Engine" where
  "on_seen e p s h =
     (if terminal (pairState s h) then e
      else e\<lparr>peers := update_peer p
                 (\<lambda>s. s\<lparr>seenByPeer := insert h (seenByPeer s),
                         pairState := (pairState s)
                           (h := (if pairState s h = Unknown then Announced else pairState s h))\<rparr>)
                 (peers e)\<rparr>)"

definition on_tx :: "'a app_scheme \<Rightarrow> Engine \<Rightarrow> string \<Rightarrow> PeerState \<Rightarrow> bytes \<Rightarrow> Engine" where
  "on_tx a e p s body =
     (let h = Tx_Hash a body in
      if pairState s h = Delivered then e
      else admit_and_disseminate a
             (e\<lparr>peers := update_peer p (mark_delivered h) (peers e)\<rparr>) body (Some p))"

definition on_commit :: "Engine \<Rightarrow> bytes \<Rightarrow> Engine" where
  "on_commit e h =
     e\<lparr>pool := snd (Remove (pool e) h),
       peers := map (\<lambda>(p, s). (p, mark_removed h s)) (peers e)\<rparr>"

definition on_request :: "Engine \<Rightarrow> string \<Rightarrow> PeerState \<Rightarrow> bytes \<Rightarrow> Engine" where
  "on_request e p s h =
     (if protocolVersion s = Pull \<and> pairState s h = Announced \<and> \<not> Contains (pool e) h \<and>
         card (wantedFromPeer s) < wantBudget e
      then e\<lparr>peers := update_peer p
                 (\<lambda>s. s\<lparr>wantedFromPeer := insert h (wantedFromPeer s),
                         pairState := (pairState s)(h := Requested)\<rparr>) (peers e),
             sent_log := sent_log e @ [Sent p (WantTx h)]\<rparr>
      else e)"

definition on_timeout :: "Engine \<Rightarrow> string \<Rightarrow> PeerState \<Rightarrow> bytes \<Rightarrow> Engine" where
  "on_timeout e p s h =
     (if pairState s h = Requested \<and> h \<in> wantedFromPeer s
      then e\<lparr>peers := update_peer p
                 (\<lambda>s. s\<lparr>wantedFromPeer := wantedFromPeer s - {h},
                         pairState := (pairState s)(h := Announced)\<rparr>) (peers e)\<rparr>
      else e)"

text \<open>One step of the engine. A message of a peer that is not connected is dropped.\<close>

definition step :: "'a app_scheme \<Rightarrow> Engine \<Rightarrow> input \<Rightarrow> Engine" where
  "step a e i =
     (case i of
        Connect p v \<Rightarrow>
          (case map_of (peers e) p of
             Some s \<Rightarrow> e
           | None \<Rightarrow> e\<lparr>peers := peers e @ [(p, new_peer v)],
                       sent_log := sent_log e @ [Connected p]\<rparr>)
      | Disconnect p \<Rightarrow>
          (case map_of (peers e) p of
             None \<Rightarrow> e
           | Some s \<Rightarrow> e\<lparr>peers := filter (\<lambda>(q, s). q \<noteq> p) (peers e),
                         sent_log := sent_log e @ [Disconnected p]\<rparr>)
      | Submit raw \<Rightarrow> admit_and_disseminate a e raw None
      | RecvTx p body \<Rightarrow>
          (case map_of (peers e) p of None \<Rightarrow> e | Some s \<Rightarrow> on_tx a e p s body)
      | RecvSeenTx p h \<Rightarrow>
          (case map_of (peers e) p of None \<Rightarrow> e | Some s \<Rightarrow> on_seen e p s h)
      | RecvWantTx p h \<Rightarrow>
          (case map_of (peers e) p of None \<Rightarrow> e | Some s \<Rightarrow> on_want e p s h)
      | Commit h \<Rightarrow> on_commit e h
      | RequestTx p h \<Rightarrow>
          (case map_of (peers e) p of None \<Rightarrow> e | Some s \<Rightarrow> on_request e p s h)
      | Timeout p h \<Rightarrow>
          (case map_of (peers e) p of None \<Rightarrow> e | Some s \<Rightarrow> on_timeout e p s h))"

definition run :: "'a app_scheme \<Rightarrow> Engine \<Rightarrow> input list \<Rightarrow> Engine" where
  "run a e is = foldl (step a) e is"

definition initial :: "nat \<Rightarrow> nat \<Rightarrow> Engine" where
  "initial cap budget =
     \<lparr>pool = empty_pool cap, peers = [], wantBudget = budget, sent_log = []\<rparr>"

text \<open>
  The log read per connection: the number of bodies of \<open>h\<close> sent to \<open>p\<close> since \<open>p\<close>
  connected (none while \<open>p\<close> is not connected).
\<close>

definition count_delivery :: "string \<Rightarrow> bytes \<Rightarrow> nat \<Rightarrow> log_entry \<Rightarrow> nat" where
  "count_delivery p h n entry =
     (case entry of
        Connected q \<Rightarrow> if q = p then 0 else n
      | Disconnected q \<Rightarrow> if q = p then 0 else n
      | Sent q m \<Rightarrow>
          (case m of
             TxMsg h' body \<Rightarrow> if q = p \<and> h' = h then Suc n else n
           | SeenTx h' \<Rightarrow> n
           | WantTx h' \<Rightarrow> n
           | NotAvailable h' \<Rightarrow> n))"

definition deliveries :: "log_entry list \<Rightarrow> string \<Rightarrow> bytes \<Rightarrow> nat" where
  "deliveries lg p h = foldl (count_delivery p h) 0 lg"

text \<open>Whether an input hands the engine raw bytes of the hash \<open>h\<close> for admission.\<close>

definition admits :: "'a app_scheme \<Rightarrow> bytes \<Rightarrow> input \<Rightarrow> bool" where
  "admits a h i =
     (case i of
        Submit raw \<Rightarrow> Tx_Hash a raw = h
      | RecvTx p body \<Rightarrow> Tx_Hash a body = h
      | Connect p v \<Rightarrow> False
      | Disconnect p \<Rightarrow> False
      | RecvSeenTx p h' \<Rightarrow> False
      | RecvWantTx p h' \<Rightarrow> False
      | Commit h' \<Rightarrow> False
      | RequestTx p h' \<Rightarrow> False
      | Timeout p h' \<Rightarrow> False)"

text \<open>
  Two invariants of the engine, used in the proofs. For a peer and a hash: at most one
  body was sent in the current connection, and if one was sent, the peer is connected,
  has the hash in \<open>seenByPeer\<close> and the pair is \<open>Delivered\<close>. For every connected peer: a
  hash whose pair is terminal is in neither \<open>wantedByPeer\<close> nor \<open>wantedFromPeer\<close>.
\<close>

definition delivered_once :: "Engine \<Rightarrow> string \<Rightarrow> bytes \<Rightarrow> bool" where
  "delivered_once e p h =
     (distinct (map fst (peers e)) \<and>
      deliveries (sent_log e) p h \<le> 1 \<and>
      (0 < deliveries (sent_log e) p h \<longrightarrow>
         (\<exists>s. map_of (peers e) p = Some s \<and> h \<in> seenByPeer s \<and> pairState s h = Delivered)))"

definition settled :: "PeerState \<Rightarrow> bool" where
  "settled s =
     (\<forall>h. terminal (pairState s h) \<longrightarrow> h \<notin> wantedByPeer s \<and> h \<notin> wantedFromPeer s)"

definition all_settled :: "Engine \<Rightarrow> bool" where
  "all_settled e = (\<forall>p s. (p, s) \<in> set (peers e) \<longrightarrow> settled s)"

section \<open>Concrete inputs\<close>

text \<open>
  Values for the parameters, used where a property is evaluated at a concrete input: the
  missing schema constants named after their identifiers, a consensus table for
  \<open>RoundStateTable\<close>, upper-case hex for \<open>HexBytes.String\<close>, and a stand-in digest.
\<close>

definition ex_consts :: schema_consts where
  "ex_consts = \<lparr>RoundStateTable = ''consensus_round_state'', PeerFieldKey = ''peer'',
                 TransferTypeFieldKey = ''transfer_type''\<rparr>"

definition hex_digit :: "nat \<Rightarrow> char" where
  "hex_digit n = ''0123456789ABCDEF'' ! (n mod 16)"

definition hex_upper :: "bytes \<Rightarrow> string" where
  "hex_upper bs = concat (map (\<lambda>b. [hex_digit (unat b div 16), hex_digit (unat b mod 16)]) bs)"

definition ex_digest :: "bytes \<Rightarrow> bytes" where
  "ex_digest bs = [word_of_nat (length bs), foldr (+) bs 0]"

definition ex_lib :: tx_lib where
  "ex_lib = \<lparr>Tx_Hash = ex_digest, HexBytes_String = hex_upper\<rparr>"

text \<open>A client that collects the two mempool tables, and one that collects nothing.\<close>

definition ex_mempool_client :: Client where
  "ex_mempool_client = \<lparr>tables = MempoolTables, points = []\<rparr>"

definition ex_idle_client :: Client where
  "ex_idle_client = \<lparr>tables = [], points = []\<rparr>"

text \<open>A client that collects the table of the consensus round state only.\<close>

definition ex_consensus_client :: Client where
  "ex_consensus_client = \<lparr>tables = [RoundStateTable ex_consts], points = []\<rparr>"

text \<open>
  For the RPC: pagination helpers with a default page size of 30 and a maximum of 100, a
  query parser that accepts every non-empty string as it is, and a share proof that is
  the bytes the application answered.
\<close>

definition ex_validatePerPage :: "go_int option \<Rightarrow> go_int" where
  "ex_validatePerPage perPagePtr =
     (case perPagePtr of
        None \<Rightarrow> 30
      | Some perPage \<Rightarrow>
          if sint perPage < 1 then 30 else if 100 < sint perPage then 100 else perPage)"

definition ex_validatePage :: "go_int option \<Rightarrow> go_int \<Rightarrow> go_int \<Rightarrow> go_int \<times> error option" where
  "ex_validatePage pagePtr perPage totalCount =
     (case pagePtr of
        None \<Rightarrow> (1, None)
      | Some page \<Rightarrow>
          (let pages = (if sint totalCount < 1 then 1 else (totalCount - 1) div perPage + 1)
           in if sint page \<le> 0 \<or> sint pages < sint page
              then (1, Some (External ''page should be within range''))
              else (page, None)))"

definition ex_validateSkipCount :: "go_int \<Rightarrow> go_int \<Rightarrow> go_int" where
  "ex_validateSkipCount page perPage =
     (let skipCount = (page - 1) * perPage in if sint skipCount < 0 then 0 else skipCount)"

definition ex_rpc_lib :: "(string, bytes, bytes) rpc_lib" where
  "ex_rpc_lib =
     \<lparr>Tx_Hash = ex_digest, HexBytes_String = hex_upper,
      query_New = (\<lambda>s. (s, if s = [] then Some (External ''empty query'') else None)),
      maxQueryLength = 512,
      validatePerPage = ex_validatePerPage,
      validatePage = ex_validatePage,
      validateSkipCount = ex_validateSkipCount,
      TxInclusionProofQueryPath = (\<lambda>index. ''custom/txInclusionProof''),
      Unmarshal = (\<lambda>bs. (bs, None)),
      ShareProofFromProto = (\<lambda>p. (p, None)),
      ShareProof_zero = []\<rparr>"

text \<open>
  An index of three transactions: two in the block at height 1, which the block store
  holds in two parts, and one at height 5, of which the block store holds nothing.
\<close>

definition ex_tx1 :: "nat TxResult" where
  "ex_tx1 = \<lparr>txr_Height = 1, txr_Index = 0, txr_Tx = [1], txr_Result = 0\<rparr>"

definition ex_tx2 :: "nat TxResult" where
  "ex_tx2 = \<lparr>txr_Height = 1, txr_Index = 1, txr_Tx = [2], txr_Result = 0\<rparr>"

definition ex_tx3 :: "nat TxResult" where
  "ex_tx3 = \<lparr>txr_Height = 5, txr_Index = 0, txr_Tx = [3], txr_Result = 0\<rparr>"

definition ex_found :: "nat TxResult list" where
  "ex_found = [ex_tx2, ex_tx3, ex_tx1]"

definition ex_get :: "bytes \<Rightarrow> nat TxResult option \<times> error option" where
  "ex_get hash =
     (if hash = [1] then (Some ex_tx1, None)
      else if hash = [3] then (Some ex_tx3, None)
      else if hash = [9] then (None, Some (External ''index unreadable''))
      else (None, None))"

definition ex_search :: "string \<Rightarrow> nat TxResult list \<times> error option" where
  "ex_search q = (ex_found, None)"

definition ex_block_store :: BlockStore where
  "ex_block_store =
     \<lparr>LoadBlockMeta = (\<lambda>height. if height = 1 then Some \<lparr>Total = 2\<rparr> else None),
      LoadBlockPart = (\<lambda>height i. if height = 1 \<and> i < 2 then Some \<lparr>Bytes = [of_nat i]\<rparr>
                                   else None)\<rparr>"

definition ex_env :: "(string, nat) Environment" where
  "ex_env =
     \<lparr>TxIndexer = Indexer ex_get ex_search,
      BlockStore = ex_block_store,
      QuerySync = (\<lambda>req. (\<lparr>Value = Data req, Log = []\<rparr>, None))\<rparr>"

definition ex_disabled_env :: "(string, nat) Environment" where
  "ex_disabled_env = ex_env\<lparr>TxIndexer := NullTxIndex\<rparr>"

text \<open>
  For the pool: an application that rejects the transactions whose first byte is zero,
  with the digest of \<open>ex_lib\<close>.
\<close>

definition ex_app :: app where
  "ex_app =
     \<lparr>Tx_Hash = ex_digest, HexBytes_String = hex_upper,
      Check = (\<lambda>raw. if take 1 raw = [0] then Reject ''leading zero'' else Accept)\<rparr>"

text \<open>
  A pool with room for ten bytes in which the transaction \<open>[1, 2, 3]\<close> was admitted and
  then removed: the store is empty again, the cache still holds the verdict.
\<close>

definition ex_pool_after_removal :: Mempool where
  "ex_pool_after_removal =
     snd (Remove (snd (AdmitRaw ex_app (empty_pool 10) [1, 2, 3] None))
            (Tx_Hash ex_app [1, 2, 3]))"

section \<open>Properties of the tracing schema\<close>

lemma WritePoint_collecting:
  "IsCollecting client t \<Longrightarrow>
   WritePoint t fs client = ((), client\<lparr>points := points client @ [\<lparr>pt_table = t, pt_fields = fs\<rparr>]\<rparr>)"
  by (simp add: WritePoint_def)

lemma mempool_tx_fields_version:
  "mempool_tx_fields k lib peer tx tt ver VersionFieldKey = Some (StringValue ver)"
  by (simp add: mempool_tx_fields_def)

lemma mempool_tx_fields_size:
  assumes "distinct (mempool_tx_keys k)"
  shows "mempool_tx_fields k lib peer tx tt ver SizeFieldKey = Some (IntValue (int (length tx)))"
  using assms
  by (auto simp: mempool_tx_fields_def mempool_tx_keys_def SizeFieldKey_def VersionFieldKey_def)

lemma mempool_tx_fields_tx:
  assumes "distinct (mempool_tx_keys k)"
  shows "mempool_tx_fields k lib peer tx tt ver TxFieldKey =
           Some (StringValue (HexBytes_String lib (Tx_Hash lib tx)))"
  using assms
  by (auto simp: mempool_tx_fields_def mempool_tx_keys_def TxFieldKey_def SizeFieldKey_def
      VersionFieldKey_def)

lemma ex_keys_distinct: "distinct (mempool_tx_keys ex_consts)"
  by (simp add: mempool_tx_keys_def ex_consts_def TxFieldKey_def SizeFieldKey_def
      VersionFieldKey_def)

lemma ex_collecting: "IsCollecting ex_mempool_client MempoolTxTable"
  by (simp add: IsCollecting_def ex_mempool_client_def MempoolTables_def)

text \<open>
  C7. \<open>MempoolTables\<close> returns exactly the two names "mempool_tx" and
  "mempool_peer_state". The state-update values "removed_tx" and "added_tx" are declared,
  but the table of the local mempool updates ("mempool_local", commented out in the
  source) is neither returned by \<open>MempoolTables\<close> nor among the constants of the schema.
\<close>

theorem MempoolTables_exact:
  "MempoolTables = [''mempool_tx'', ''mempool_peer_state''] \<and>
   RemovedTxStateUpdateFieldValue = ''removed_tx'' \<and>
   AddedTxStateUpdateFieldValue = ''added_tx'' \<and>
   ''mempool_local'' \<notin> set MempoolTables \<and>
   ''mempool_local'' \<notin> set mempool_schema_constants"
  by (simp add: MempoolTables_def mempool_schema_constants_def MempoolTxTable_def
      MempoolPeerStateTable_def RemovedTxStateUpdateFieldValue_def AddedTxStateUpdateFieldValue_def
      TxFieldKey_def SizeFieldKey_def VersionFieldKey_def V1VersionFieldValue_def
      CatVersionFieldValue_def StateUpdateFieldKey_def SeenTxStateUpdateFieldValue_def
      WantTxStateUpdateFieldValue_def)

text \<open>
  C3. When the client collects \<open>mempool_tx\<close>, \<open>WriteMempoolTx\<close> appends exactly one point
  to what the client has written, in that table, whose \<open>size\<close> is the byte length of
  \<open>tx\<close>, whose \<open>tx\<close> is the hex string of the digest of the raw bytes and whose
  \<open>version\<close> is the label given; when the client does not collect the table, the client
  is left as it was. The keys of the map literal are distinct, as Go demands.
\<close>

theorem WriteMempoolTx_point:
  assumes "distinct (mempool_tx_keys k)"
  shows "if IsCollecting client MempoolTxTable
         then \<exists>p. WriteMempoolTx k lib client peer tx transferType version =
                     ((), client\<lparr>points := points client @ [p]\<rparr>) \<and>
                   pt_table p = MempoolTxTable \<and>
                   pt_fields p SizeFieldKey = Some (IntValue (int (length tx))) \<and>
                   pt_fields p TxFieldKey =
                     Some (StringValue (HexBytes_String lib (Tx_Hash lib tx))) \<and>
                   pt_fields p VersionFieldKey = Some (StringValue version)
         else WriteMempoolTx k lib client peer tx transferType version = ((), client)"
proof (cases "IsCollecting client MempoolTxTable")
  case True
  let ?p = "\<lparr>pt_table = MempoolTxTable,
              pt_fields = mempool_tx_fields k lib peer tx transferType version\<rparr>"
  have "WriteMempoolTx k lib client peer tx transferType version =
          ((), client\<lparr>points := points client @ [?p]\<rparr>)"
    using True by (simp add: WriteMempoolTx_def WritePoint_collecting)
  moreover have "pt_table ?p = MempoolTxTable" by simp
  moreover have "pt_fields ?p SizeFieldKey = Some (IntValue (int (length tx)))"
    using assms by (simp add: mempool_tx_fields_size)
  moreover have "pt_fields ?p TxFieldKey =
                   Some (StringValue (HexBytes_String lib (Tx_Hash lib tx)))"
    using assms by (simp add: mempool_tx_fields_tx)
  moreover have "pt_fields ?p VersionFieldKey = Some (StringValue version)"
    by (simp add: mempool_tx_fields_version)
  ultimately show ?thesis using True by metis
next
  case False
  then show ?thesis by (simp add: WriteMempoolTx_def)
qed

theorem WriteMempoolTx_point_witness:
  "distinct (mempool_tx_keys ex_consts) \<and>
   IsCollecting ex_mempool_client MempoolTxTable \<and>
   (\<exists>p. WriteMempoolTx ex_consts ex_lib ex_mempool_client ''peer1'' [1, 2, 3] ''upload''
           CatVersionFieldValue = ((), ex_mempool_client\<lparr>points := [p]\<rparr>) \<and>
        pt_table p = ''mempool_tx'' \<and>
        pt_fields p ''size'' = Some (IntValue 3) \<and>
        pt_fields p ''tx'' = Some (StringValue ''0306'') \<and>
        pt_fields p ''version'' = Some (StringValue ''cat'')) \<and>
   \<not> IsCollecting ex_idle_client MempoolTxTable \<and>
   WriteMempoolTx ex_consts ex_lib ex_idle_client ''peer1'' [1, 2, 3] ''upload''
     CatVersionFieldValue = ((), ex_idle_client)"
proof -
  have hex: "HexBytes_String ex_lib (Tx_Hash ex_lib [1, 2, 3]) = ''0306''"
    by (simp add: ex_lib_def ex_digest_def hex_upper_def hex_digit_def)
  have idle: "\<not> IsCollecting ex_idle_client MempoolTxTable"
    by (simp add: IsCollecting_def ex_idle_client_def)
  have pts: "points ex_mempool_client = []"
    by (simp add: ex_mempool_client_def)
  show ?thesis
    using WriteMempoolTx_point [OF ex_keys_distinct, of ex_mempool_client ex_lib "''peer1''"
        "[1, 2, 3]" "''upload''" CatVersionFieldValue]
      WriteMempoolTx_point [OF ex_keys_distinct, of ex_idle_client ex_lib "''peer1''"
        "[1, 2, 3]" "''upload''" CatVersionFieldValue]
      ex_keys_distinct ex_collecting idle hex pts
    by (simp add: MempoolTxTable_def SizeFieldKey_def TxFieldKey_def VersionFieldKey_def
        CatVersionFieldValue_def)
qed

lemma ex_idle_not_collecting: "\<not> IsCollecting ex_idle_client t"
  by (simp add: IsCollecting_def ex_idle_client_def)

lemma ex_consensus_collecting: "IsCollecting ex_consensus_client (RoundStateTable ex_consts)"
  by (simp add: IsCollecting_def ex_consensus_client_def)

lemma ex_mempool_not_round_state:
  "\<not> IsCollecting ex_mempool_client (RoundStateTable ex_consts)"
  by (simp add: IsCollecting_def ex_mempool_client_def ex_consts_def MempoolTables_def
      MempoolTxTable_def MempoolPeerStateTable_def)

text \<open>
  C4. The sink never influences control flow. Run \<open>WriteMempoolTx\<close> (or
  \<open>WriteMempoolPeerState\<close>) once against a client that answers \<open>IsCollecting\<close> with true
  and once against one that answers false: both runs return the unit value, each leaves
  everything its client holds besides the written points as it was, the second run
  leaves the points as they were too, and the first run differs only in that one point
  is appended to the sink.
\<close>

theorem sink_never_influences:
  assumes "IsCollecting c1 MempoolTxTable" and "\<not> IsCollecting c2 MempoolTxTable"
    and "IsCollecting d1 (RoundStateTable k)" and "\<not> IsCollecting d2 (RoundStateTable k)"
  shows "fst (WriteMempoolTx k lib c1 peer tx tt ver) = fst (WriteMempoolTx k lib c2 peer tx tt ver) \<and>
         non_sink (snd (WriteMempoolTx k lib c1 peer tx tt ver)) = non_sink c1 \<and>
         non_sink (snd (WriteMempoolTx k lib c2 peer tx tt ver)) = non_sink c2 \<and>
         (\<exists>p. points (snd (WriteMempoolTx k lib c1 peer tx tt ver)) = points c1 @ [p]) \<and>
         points (snd (WriteMempoolTx k lib c2 peer tx tt ver)) = points c2 \<and>
         fst (WriteMempoolPeerState k d1 peer upd tt ver) =
           fst (WriteMempoolPeerState k d2 peer upd tt ver) \<and>
         non_sink (snd (WriteMempoolPeerState k d1 peer upd tt ver)) = non_sink d1 \<and>
         non_sink (snd (WriteMempoolPeerState k d2 peer upd tt ver)) = non_sink d2 \<and>
         (\<exists>p. points (snd (WriteMempoolPeerState k d1 peer upd tt ver)) = points d1 @ [p]) \<and>
         points (snd (WriteMempoolPeerState k d2 peer upd tt ver)) = points d2"
  using assms
  by (simp add: WriteMempoolTx_def WriteMempoolPeerState_def WritePoint_def non_sink_def)

theorem sink_never_influences_witness:
  "IsCollecting ex_mempool_client MempoolTxTable \<and>
   \<not> IsCollecting ex_idle_client MempoolTxTable \<and>
   IsCollecting ex_consensus_client (RoundStateTable ex_consts) \<and>
   \<not> IsCollecting ex_mempool_client (RoundStateTable ex_consts) \<and>
   fst (WriteMempoolTx ex_consts ex_lib ex_mempool_client ''peer1'' [7] ''upload'' ''cat'') =
     fst (WriteMempoolTx ex_consts ex_lib ex_idle_client ''peer1'' [7] ''upload'' ''cat'') \<and>
   non_sink (snd (WriteMempoolTx ex_consts ex_lib ex_mempool_client ''peer1'' [7] ''upload'' ''cat''))
     = (MempoolTables, ()) \<and>
   non_sink (snd (WriteMempoolTx ex_consts ex_lib ex_idle_client ''peer1'' [7] ''upload'' ''cat''))
     = ([], ()) \<and>
   length (points (snd (WriteMempoolTx ex_consts ex_lib ex_mempool_client ''peer1'' [7]
     ''upload'' ''cat''))) = 1 \<and>
   points (snd (WriteMempoolTx ex_consts ex_lib ex_idle_client ''peer1'' [7] ''upload'' ''cat''))
     = [] \<and>
   non_sink (snd (WriteMempoolPeerState ex_consts ex_consensus_client ''peer1'' ''seen_tx''
     ''upload'' ''cat'')) = ([''consensus_round_state''], ()) \<and>
   non_sink (snd (WriteMempoolPeerState ex_consts ex_mempool_client ''peer1'' ''seen_tx''
     ''upload'' ''cat'')) = (MempoolTables, ()) \<and>
   length (points (snd (WriteMempoolPeerState ex_consts ex_consensus_client ''peer1''
     ''seen_tx'' ''upload'' ''cat''))) = 1 \<and>
   points (snd (WriteMempoolPeerState ex_consts ex_mempool_client ''peer1'' ''seen_tx''
     ''upload'' ''cat'')) = []"
proof -
  note w = sink_never_influences [OF ex_collecting ex_idle_not_collecting
      ex_consensus_collecting ex_mempool_not_round_state,
      where lib = ex_lib and peer = "''peer1''" and tx = "[7]" and tt = "''upload''"
        and ver = "''cat''" and upd = "''seen_tx''"]
  have ns: "non_sink ex_mempool_client = (MempoolTables, ())"
    "non_sink ex_idle_client = ([], ())"
    "non_sink ex_consensus_client = ([''consensus_round_state''], ())"
    by (simp_all add: non_sink_def ex_mempool_client_def ex_idle_client_def
        ex_consensus_client_def ex_consts_def)
  have pts: "points ex_mempool_client = []" "points ex_idle_client = []"
    "points ex_consensus_client = []"
    by (simp_all add: ex_mempool_client_def ex_idle_client_def ex_consensus_client_def)
  from w ns pts ex_collecting ex_idle_not_collecting ex_consensus_collecting
    ex_mempool_not_round_state
  show ?thesis by auto
qed

text \<open>
  C1, evaluated on the code. A client that collects the tables of \<open>MempoolTables\<close>, among
  them \<open>mempool_peer_state\<close>, gets no point from \<open>WriteMempoolPeerState\<close>; a client that
  collects the consensus table \<open>RoundStateTable\<close> and not \<open>mempool_peer_state\<close> gets the
  point, written to the consensus table. The function asks for and writes to
  \<open>RoundStateTable\<close> where its doc comment and \<open>MempoolPeerStateTable\<close> promise the mempool
  peer-state table.
\<close>

theorem WriteMempoolPeerState_wrong_table:
  "IsCollecting ex_mempool_client MempoolPeerStateTable \<and>
   WriteMempoolPeerState ex_consts ex_mempool_client ''peer1'' SeenTxStateUpdateFieldValue
     ''download'' CatVersionFieldValue = ((), ex_mempool_client) \<and>
   \<not> IsCollecting ex_consensus_client MempoolPeerStateTable \<and>
   map pt_table (points (snd (WriteMempoolPeerState ex_consts ex_consensus_client ''peer1''
     SeenTxStateUpdateFieldValue ''download'' CatVersionFieldValue))) =
     [''consensus_round_state'']"
  by (simp add: WriteMempoolPeerState_def WritePoint_def IsCollecting_def ex_mempool_client_def
      ex_consensus_client_def ex_consts_def MempoolTables_def MempoolTxTable_def
      MempoolPeerStateTable_def)

section \<open>Properties of the transaction queries\<close>

subsection \<open>The two copies agree\<close>

lemma loadParts_part000_eq: "loadParts_part000 bs height n i buf = loadParts bs height n i buf"
proof (induction bs height n i buf rule: loadParts.induct)
  case (1 bs height n i buf)
  show ?case
  proof (cases "i < n")
    case True
    show ?thesis
    proof (cases "LoadBlockPart bs height i")
      case None
      with True show ?thesis
        by (subst loadParts_part000.simps, subst loadParts.simps) simp
    next
      case (Some part)
      with True "1.IH" [OF True Some] show ?thesis
        by (subst loadParts_part000.simps, subst loadParts.simps) simp
    qed
  next
    case False
    then show ?thesis
      by (subst loadParts_part000.simps, subst loadParts.simps) simp
  qed
qed

lemma loadParts_part000_fun: "loadParts_part000 = loadParts"
  by (intro ext) (rule loadParts_part000_eq)

lemma loadRawBlock_part000_fun: "loadRawBlock_part000 = loadRawBlock"
  unfolding loadRawBlock_part000_def loadRawBlock_def loadParts_part000_fun
  by (intro ext refl)

lemma proveTx_part000_fun: "proveTx_part000 = proveTx"
  unfolding proveTx_part000_def proveTx_def loadRawBlock_part000_fun
  by (intro ext refl)

lemma less_part000_fun: "less_desc_part000 = less_desc" "less_asc_part000 = less_asc"
  unfolding less_desc_part000_def less_desc_def less_asc_part000_def less_asc_def
  by (intro ext refl)+

lemma txSearchLoop_part000_eq:
  "txSearchLoop_part000 lib env results prove bound i apiResults =
   txSearchLoop lib env results prove bound i apiResults"
proof (induction lib env results prove bound i apiResults rule: txSearchLoop.induct)
  case (1 lib env results prove bound i apiResults)
  show ?case
  proof (cases "sint i < sint bound \<and> \<not> (sint i < 0 \<or> int (length results) \<le> sint i)")
    case False
    then show ?thesis
      by (subst txSearchLoop_part000.simps, subst txSearchLoop.simps) auto
  next
    case True
    define r where "r = results ! nat (sint i)"
    show ?thesis
    proof (cases prove)
      case False
      with True "1.IH"(2) [OF _ _ r_def] show ?thesis
        by (subst txSearchLoop_part000.simps, subst txSearchLoop.simps)
          (simp add: r_def Let_def)
    next
      case prove: True
      obtain sp e where p: "proveTx lib env (txr_Height r) (txr_Index r) = (sp, e)"
        by (cases "proveTx lib env (txr_Height r) (txr_Index r)")
      show ?thesis
      proof (cases e)
        case None
        with True prove p "1.IH"(1) [OF _ _ r_def _ p [symmetric]] show ?thesis
          by (subst txSearchLoop_part000.simps, subst txSearchLoop.simps)
            (simp add: r_def Let_def proveTx_part000_fun)
      next
        case (Some err)
        with True prove p show ?thesis
          by (subst txSearchLoop_part000.simps, subst txSearchLoop.simps)
            (simp add: r_def Let_def proveTx_part000_fun)
      qed
    qed
  qed
qed

lemma txSearchLoop_part000_fun: "txSearchLoop_part000 = txSearchLoop"
  by (intro ext) (rule txSearchLoop_part000_eq)

text \<open>
  C8. \<open>Tx\<close> and \<open>TxSearch\<close> of rpc/core/tx.go and their copies in unnamed/part_000
  return the same result and the same error (and panic alike), for every environment,
  hash, query, page, page size and order.
\<close>

theorem tx_copies_equivalent:
  "Tx_part000 lib env hash prove = Tx lib env hash prove \<and>
   TxSearch_part000 lib env query prove pagePtr perPagePtr orderBy =
     TxSearch lib env query prove pagePtr perPagePtr orderBy"
  unfolding Tx_part000_def Tx_def TxSearch_part000_def TxSearch_def proveTx_part000_fun
    txSearchLoop_part000_fun less_part000_fun
  by (intro conjI refl)

subsection \<open>Results and errors of Tx\<close>

lemma ex_Tx_no_block: "Tx ex_rpc_lib ex_env [3] True = (None, Some (NoBlockFound 5))"
  by (simp add: Tx_def ex_env_def ex_get_def ex_tx3_def proveTx_def loadRawBlock_def
      ex_block_store_def ex_rpc_lib_def)

text \<open>
  C9 as stated fails: "\<open>Tx\<close> returns an error in exactly three cases (indexing disabled,
  lookup failed, no record)". With a proof asked for, the record at height 5 found and
  no block stored at that height, \<open>Tx\<close> returns the error of \<open>proveTx\<close>, and none of the
  three cases holds.
\<close>

theorem Tx_three_failure_cases_counterexample:
  "snd (Tx ex_rpc_lib ex_env [3] True) = Some (NoBlockFound 5) \<and>
   \<not> Tx_indexing_disabled ex_env \<and> \<not> Tx_lookup_failed ex_env [3] \<and>
   \<not> Tx_no_record ex_env [3]"
  by (simp add: ex_Tx_no_block)
    (simp add: Tx_indexing_disabled_def Tx_lookup_failed_def Tx_no_record_def ex_env_def
      ex_get_def)

text \<open>
  C9, amended. \<open>Tx\<close> returns a result exactly when it returns no error. It returns an
  error in exactly four cases: indexing is disabled, the lookup of the indexer fails, the
  indexer has no record for the hash, or a proof is asked for and \<open>proveTx\<close> fails. A
  result returned has the queried hash in \<open>Hash\<close>, and the zero \<open>ShareProof\<close> in \<open>Proof\<close>
  whenever \<open>prove\<close> is false.
\<close>

theorem Tx_result_and_errors:
  "(fst (Tx lib env hash prove) = None) = (snd (Tx lib env hash prove) \<noteq> None) \<and>
   (snd (Tx lib env hash prove) \<noteq> None) =
     (Tx_indexing_disabled env \<or> Tx_lookup_failed env hash \<or> Tx_no_record env hash \<or>
      Tx_proof_failed lib env hash prove) \<and>
   (case fst (Tx lib env hash prove) of
      None \<Rightarrow> True
    | Some res \<Rightarrow> rtx_Hash res = hash \<and> (prove \<or> rtx_Proof res = ShareProof_zero lib))"
proof (cases "TxIndexer env")
  case NullTxIndex
  then show ?thesis
    by (simp add: Tx_def Tx_indexing_disabled_def)
next
  case (Indexer get search)
  obtain r e where g: "get hash = (r, e)" by (cases "get hash")
  show ?thesis
  proof (cases e)
    case (Some err)
    with Indexer g show ?thesis
      by (cases r) (simp_all add: Tx_def Tx_indexing_disabled_def Tx_lookup_failed_def)
  next
    case None
    note e = None
    show ?thesis
    proof (cases r)
      case None
      with Indexer g e show ?thesis
        by (simp add: Tx_def Tx_indexing_disabled_def Tx_lookup_failed_def Tx_no_record_def)
    next
      case (Some rec)
      obtain sp pe where p: "proveTx lib env (txr_Height rec) (txr_Index rec) = (sp, pe)"
        by (cases "proveTx lib env (txr_Height rec) (txr_Index rec)")
      from Indexer g e Some p show ?thesis
        by (cases pe)
          (simp_all add: Tx_def Tx_indexing_disabled_def Tx_lookup_failed_def Tx_no_record_def
            Tx_proof_failed_def Let_def)
    qed
  qed
qed

theorem Tx_result_and_errors_witness:
  "Tx ex_rpc_lib ex_env [3] True = (None, Some (NoBlockFound 5)) \<and>
   Tx_proof_failed ex_rpc_lib ex_env [3] True \<and>
   fst (Tx ex_rpc_lib ex_env [3] False) \<noteq> None \<and>
   rtx_Hash (the (fst (Tx ex_rpc_lib ex_env [3] False))) = [3] \<and>
   rtx_Proof (the (fst (Tx ex_rpc_lib ex_env [3] False))) = ShareProof_zero ex_rpc_lib"
proof -
  have n: "\<not> Tx_indexing_disabled ex_env \<and> \<not> Tx_lookup_failed ex_env [3] \<and>
      \<not> Tx_no_record ex_env [3]"
    by (simp add: Tx_indexing_disabled_def Tx_lookup_failed_def Tx_no_record_def ex_env_def
        ex_get_def)
  have f: "\<not> Tx_proof_failed ex_rpc_lib ex_env [3] False"
    by (simp add: Tx_proof_failed_def ex_env_def ex_get_def)
  from Tx_result_and_errors [of ex_rpc_lib ex_env "[3]" True] ex_Tx_no_block n
  have "Tx_proof_failed ex_rpc_lib ex_env [3] True" by simp
  moreover from Tx_result_and_errors [of ex_rpc_lib ex_env "[3]" False] n f
  have "fst (Tx ex_rpc_lib ex_env [3] False) \<noteq> None \<and>
   rtx_Hash (the (fst (Tx ex_rpc_lib ex_env [3] False))) = [3] \<and>
   rtx_Proof (the (fst (Tx ex_rpc_lib ex_env [3] False))) = ShareProof_zero ex_rpc_lib"
    by (auto split: option.splits)
  ultimately show ?thesis using ex_Tx_no_block by simp
qed

subsection \<open>The page and the count of TxSearch\<close>

lemma length_insert_by: "length (insert_by lt x xs) = Suc (length xs)"
  by (induction xs) simp_all

lemma length_sort_Slice: "length (sort_Slice lt xs) = length xs"
  by (induction xs) (simp_all add: sort_Slice_def length_insert_by)

lemma sint_MinInt_le: "sint (MinInt a b) \<le> sint a"
  by (simp add: MinInt_def)

lemma sint_totalCount:
  assumes "n < 2 ^ 63"
  shows "sint (word_of_nat n :: go_int) = int n"
proof -
  have w: "(word_of_nat n :: go_int) = word_of_int (int n)" by simp
  have "sint (word_of_int (int n) :: go_int) = signed_take_bit (LENGTH(64) - 1) (int n)"
    by (rule sint_sbintrunc')
  also have "\<dots> = signed_take_bit 63 (int n)" by simp
  also have "\<dots> = int n"
  proof (rule signed_take_bit_int_eq_self)
    show "- (2 ^ 63) \<le> int n" by simp
    from assms have "int n < int (2 ^ 63)" by (simp only: of_nat_less_iff)
    then show "int n < 2 ^ 63" by simp
  qed
  finally show ?thesis by (simp only: w)
qed

lemma sint_bound_diff:
  fixes skipCount pageSize :: go_int
  assumes "0 \<le> sint pageSize"
  shows "sint (skipCount + pageSize) - sint skipCount \<le> sint pageSize"
proof -
  have "- (2 ^ 63) \<le> sint skipCount" using sint_ge [of skipCount] by simp
  with assms have "- (2 ^ 63) \<le> sint skipCount + sint pageSize" by simp
  then have "signed_take_bit 63 (sint skipCount + sint pageSize) \<le> sint skipCount + sint pageSize"
    by (simp only: signed_take_bit_int_less_eq_self_iff)
  then show ?thesis by (simp add: sint_word_add)
qed

lemma txSearchLoop_length:
  "txSearchLoop lib env results prove bound i apiResults = Returns (xs, None) \<Longrightarrow>
   int (length xs) \<le> int (length apiResults) + max 0 (sint bound - sint i)"
proof (induction lib env results prove bound i apiResults rule: txSearchLoop.induct)
  case (1 lib env results prove bound i apiResults)
  show ?case
  proof (cases "sint i < sint bound")
    case False
    with "1.prems" show ?thesis
      by (subst (asm) txSearchLoop.simps) simp
  next
    case True
    note lt = True
    have nxt: "sint (i + 1) = sint i + 1" using lt by (rule sint_succ_less)
    show ?thesis
    proof (cases "sint i < 0 \<or> int (length results) \<le> sint i")
      case True
      with lt "1.prems" show ?thesis
        by (subst (asm) txSearchLoop.simps) simp
    next
      case False
      note inr = False
      define r where "r = results ! nat (sint i)"
      show ?thesis
      proof (cases prove)
        case False
        with lt inr "1.prems"
        have "txSearchLoop lib env results prove bound (i + 1)
                (apiResults @
                   [\<lparr>rtx_Hash = Tx_Hash lib (txr_Tx r), rtx_Height = txr_Height r,
                     rtx_Index = txr_Index r, rtx_TxResult = txr_Result r,
                     rtx_Tx = txr_Tx r, rtx_Proof = ShareProof_zero lib\<rparr>]) = Returns (xs, None)"
          by (subst (asm) txSearchLoop.simps) (simp add: r_def Let_def)
        from "1.IH"(2) [OF lt inr r_def False this] nxt lt show ?thesis by simp
      next
        case True
        obtain sp e where p: "proveTx lib env (txr_Height r) (txr_Index r) = (sp, e)"
          by (cases "proveTx lib env (txr_Height r) (txr_Index r)")
        show ?thesis
        proof (cases e)
          case (Some err)
          with lt inr True p "1.prems" show ?thesis
            by (subst (asm) txSearchLoop.simps) (simp add: r_def Let_def)
        next
          case None
          with lt inr True p "1.prems"
          have "txSearchLoop lib env results prove bound (i + 1)
                  (apiResults @
                     [\<lparr>rtx_Hash = Tx_Hash lib (txr_Tx r), rtx_Height = txr_Height r,
                       rtx_Index = txr_Index r, rtx_TxResult = txr_Result r,
                       rtx_Tx = txr_Tx r, rtx_Proof = sp\<rparr>]) = Returns (xs, None)"
            by (subst (asm) txSearchLoop.simps) (simp add: r_def Let_def)
          from "1.IH"(1) [OF lt inr r_def True p [symmetric] None this] nxt lt
          show ?thesis by simp
        qed
      qed
    qed
  qed
qed

lemma TxSearch_bad_order:
  assumes "orderBy \<noteq> ''asc''" and "orderBy \<noteq> ''desc''" and "orderBy \<noteq> []"
  shows "\<exists>err. TxSearch lib env query prove pagePtr perPagePtr orderBy = Returns (None, Some err)"
proof (cases "TxIndexer env")
  case NullTxIndex
  then show ?thesis by (simp add: TxSearch_def)
next
  case (Indexer get search)
  obtain q qe where q: "query_New lib query = (q, qe)" by (cases "query_New lib query")
  obtain found fe where f: "search q = (found, fe)" by (cases "search q")
  from Indexer q f assms show ?thesis
    by (cases qe; cases fe) (simp_all add: TxSearch_def)
qed

lemma TxSearch_unfold:
  assumes idx: "TxIndexer env = Indexer get search"
    and q: "query_New lib query = (q, None)"
    and f: "search q = (found, None)"
    and lq: "\<not> int (length query) > maxQueryLength lib"
    and ord: "orderBy = ''desc'' \<or> orderBy = ''asc'' \<or> orderBy = []"
  shows "TxSearch lib env query prove pagePtr perPagePtr orderBy =
     (let results =
            (if orderBy = ''desc'' then sort_Slice less_desc found
             else sort_Slice less_asc found);
          totalCount = (word_of_nat (length results) :: go_int);
          perPage = validatePerPage lib perPagePtr
      in
        (case validatePage lib pagePtr perPage totalCount of
           (page, Some err) \<Rightarrow> Returns (None, Some err)
         | (page, None) \<Rightarrow>
             (let skipCount = validateSkipCount lib page perPage;
                  pageSize = MinInt perPage (totalCount - skipCount)
              in
                if sint pageSize < 0 then Panics
                else
                  (case txSearchLoop lib env results prove
                          (skipCount + pageSize) skipCount [] of
                     Panics \<Rightarrow> Panics
                   | Returns (apiResults, Some err) \<Rightarrow>
                       Returns (None, Some err)
                   | Returns (apiResults, None) \<Rightarrow>
                       Returns
                         (Some \<lparr>Txs = apiResults,
                                TotalCount = totalCount\<rparr>, None)))))"
proof -
  from ord have o: "(orderBy \<noteq> ''desc'' \<and> orderBy \<noteq> ''asc'' \<and> orderBy \<noteq> []) = False"
    by blast
  show ?thesis
    unfolding TxSearch_def
    by (simp only: idx TxIndexer.case lq if_False q f prod.case option.case o)
qed

lemma TxSearch_returns_result:
  assumes idx: "TxIndexer env = Indexer get search"
    and q: "query_New lib query = (q, None)"
    and f: "search q = (found, None)"
    and len: "length found < 2 ^ 63"
    and res: "TxSearch lib env query prove pagePtr perPagePtr orderBy = Returns (Some res, e)"
  shows "int (length (Txs res)) \<le> sint (validatePerPage lib perPagePtr) \<and>
         sint (TotalCount res) = int (length found) \<and> e = None"
proof -
  define results where
    "results = (if orderBy = ''desc'' then sort_Slice less_desc found
                else sort_Slice less_asc found)"
  define totalCount :: go_int where "totalCount = word_of_nat (length results)"
  define perPage where "perPage = validatePerPage lib perPagePtr"
  obtain page pe where pg: "validatePage lib pagePtr perPage totalCount = (page, pe)"
    by (cases "validatePage lib pagePtr perPage totalCount")
  define skipCount where "skipCount = validateSkipCount lib page perPage"
  define pageSize where "pageSize = MinInt perPage (totalCount - skipCount)"
  define loop where
    "loop = txSearchLoop lib env results prove (skipCount + pageSize) skipCount []"
  have lenr: "length results = length found"
    by (simp add: results_def length_sort_Slice)
  have ord: "orderBy = ''desc'' \<or> orderBy = ''asc'' \<or> orderBy = []"
  proof (rule ccontr)
    assume "\<not> ?thesis"
    then have "orderBy \<noteq> ''asc''" "orderBy \<noteq> ''desc''" "orderBy \<noteq> []" by simp_all
    from TxSearch_bad_order [OF this, of lib env query prove pagePtr perPagePtr] res
    show False by simp
  qed
  have lq: "\<not> int (length query) > maxQueryLength lib"
  proof
    assume "int (length query) > maxQueryLength lib"
    then have "TxSearch lib env query prove pagePtr perPagePtr orderBy =
                 Returns (None, Some QueryTooLong)"
      unfolding TxSearch_def by (simp only: idx TxIndexer.case if_True)
    with res show False by simp
  qed
  have unf: "TxSearch lib env query prove pagePtr perPagePtr orderBy =
     (case pe of
        Some err \<Rightarrow> Returns (None, Some err)
      | None \<Rightarrow>
          if sint pageSize < 0 then Panics
          else (case loop of
                  Panics \<Rightarrow> Panics
                | Returns (apiResults, Some err) \<Rightarrow> Returns (None, Some err)
                | Returns (apiResults, None) \<Rightarrow>
                    Returns (Some \<lparr>Txs = apiResults, TotalCount = totalCount\<rparr>, None)))"
    unfolding loop_def pageSize_def skipCount_def
    using pg unfolding perPage_def totalCount_def results_def
    by (cases pe) (simp_all only: TxSearch_unfold [OF idx q f lq ord] Let_def prod.case option.case)
  have ps: "\<not> sint pageSize < 0"
  proof
    assume "sint pageSize < 0"
    with unf res show False by (cases pe) simp_all
  qed
  from unf res ps have lp': "(case loop of
                  Panics \<Rightarrow> Panics
                | Returns (apiResults, Some err) \<Rightarrow> Returns (None, Some err)
                | Returns (apiResults, None) \<Rightarrow>
                    Returns (Some \<lparr>Txs = apiResults, TotalCount = totalCount\<rparr>, None))
               = Returns (Some res, e)"
    by (cases pe) simp_all
  then obtain xs where lp: "loop = Returns (xs, None)"
    and r: "res = \<lparr>Txs = xs, TotalCount = totalCount\<rparr>" and e: "e = None"
  proof (cases loop)
    case Panics
    with lp' show ?thesis by simp
  next
    case (Returns pr)
    obtain xs le where pr: "pr = (xs, le)" by (cases pr)
    with Returns lp' that show ?thesis by (cases le) simp_all
  qed
  from txSearchLoop_length [OF lp [unfolded loop_def]]
  have "int (length xs) \<le> max 0 (sint (skipCount + pageSize) - sint skipCount)" by simp
  also have "\<dots> \<le> sint pageSize"
    using sint_bound_diff [of pageSize skipCount] ps by simp
  also have "\<dots> \<le> sint perPage"
    unfolding pageSize_def by (rule sint_MinInt_le)
  finally have a: "int (length (Txs res)) \<le> sint (validatePerPage lib perPagePtr)"
    by (simp add: r perPage_def)
  have b: "sint (TotalCount res) = int (length found)"
    using sint_totalCount [OF len] by (simp add: r totalCount_def lenr)
  from a b e show ?thesis by simp
qed

lemma ex_TxSearch_page2:
  "TxSearch ex_rpc_lib ex_env ''tx.height > 0'' False (Some 2) (Some 2) ''desc'' =
     Returns (Some \<lparr>Txs = [\<lparr>rtx_Hash = [1, 1], rtx_Height = 1, rtx_Index = 0, rtx_TxResult = 0,
                              rtx_Tx = [1], rtx_Proof = []\<rparr>],
                     TotalCount = 3\<rparr>, None)"
  by code_simp

lemma ex_env_indexer: "TxIndexer ex_env = Indexer ex_get ex_search"
  by (simp add: ex_env_def)

lemma ex_query: "query_New ex_rpc_lib ''tx.height > 0'' = (''tx.height > 0'', None)"
  by (simp add: ex_rpc_lib_def)

lemma ex_search_found: "ex_search ''tx.height > 0'' = (ex_found, None)"
  by (simp add: ex_search_def)

lemma ex_found_length: "length ex_found < 2 ^ 63"
  by (simp add: ex_found_def)

text \<open>
  C10. Let the indexer answer the search for the parsed query with \<open>found\<close> (a Go slice,
  so shorter than \<open>2 ^ 63\<close>). Whenever \<open>TxSearch\<close> returns a result, \<open>Txs\<close> holds at most
  \<open>validatePerPage(perPagePtr)\<close> transactions, \<open>TotalCount\<close> is the number of results found,
  before pagination, and the error is nil. An \<open>orderBy\<close> other than "asc", "desc" and the
  empty string makes \<open>TxSearch\<close> return an error and no result.
\<close>

theorem TxSearch_page_and_count:
  assumes "TxIndexer env = Indexer get search"
    and "query_New lib query = (q, None)"
    and "search q = (found, None)"
    and "length found < 2 ^ 63"
  shows "(\<forall>res e. TxSearch lib env query prove pagePtr perPagePtr orderBy = Returns (Some res, e) \<longrightarrow>
            int (length (Txs res)) \<le> sint (validatePerPage lib perPagePtr) \<and>
            sint (TotalCount res) = int (length found) \<and> e = None) \<and>
         (orderBy \<noteq> ''asc'' \<and> orderBy \<noteq> ''desc'' \<and> orderBy \<noteq> [] \<longrightarrow>
            (\<exists>err. TxSearch lib env query prove pagePtr perPagePtr orderBy =
                     Returns (None, Some err)))"
  using TxSearch_returns_result [OF assms] TxSearch_bad_order by blast

theorem TxSearch_page_and_count_witness:
  "TxIndexer ex_env = Indexer ex_get ex_search \<and>
   query_New ex_rpc_lib ''tx.height > 0'' = (''tx.height > 0'', None) \<and>
   ex_search ''tx.height > 0'' = (ex_found, None) \<and>
   length ex_found < 2 ^ 63 \<and>
   TxSearch ex_rpc_lib ex_env ''tx.height > 0'' False (Some 2) (Some 2) ''desc'' =
     Returns (Some \<lparr>Txs = [\<lparr>rtx_Hash = [1, 1], rtx_Height = 1, rtx_Index = 0,
                              rtx_TxResult = 0, rtx_Tx = [1], rtx_Proof = []\<rparr>],
                     TotalCount = 3\<rparr>, None) \<and>
   (1::int) \<le> sint (validatePerPage ex_rpc_lib (Some 2)) \<and>
   sint (3 :: go_int) = int (length ex_found) \<and>
   (\<exists>err. TxSearch ex_rpc_lib ex_env ''tx.height > 0'' False (Some 2) (Some 2) ''sideways'' =
            Returns (None, Some err))"
proof -
  note t = TxSearch_page_and_count [where env = ex_env and get = ex_get and search = ex_search
      and lib = ex_rpc_lib and query = "''tx.height > 0''" and q = "''tx.height > 0''"
      and found = ex_found and prove = False and pagePtr = "Some 2" and perPagePtr = "Some 2",
      OF ex_env_indexer ex_query ex_search_found ex_found_length]
  note page = t [where orderBy = "''desc''", THEN conjunct1, THEN spec, THEN spec, THEN mp,
      OF ex_TxSearch_page2]
  have bad: "''sideways'' \<noteq> ''asc'' \<and> ''sideways'' \<noteq> ''desc'' \<and> ''sideways'' \<noteq> []"
    by simp
  note order = t [where orderBy = "''sideways''", THEN conjunct2, THEN mp, OF bad]
  from page have "(1::int) \<le> sint (validatePerPage ex_rpc_lib (Some 2))"
    by simp
  moreover from page have "sint (3 :: go_int) = int (length ex_found)"
    by simp
  ultimately show ?thesis
    using ex_env_indexer ex_query ex_search_found ex_found_length ex_TxSearch_page2 order
    by (intro conjI)
qed

section \<open>Properties of the transaction store and the validity cache\<close>

lemma Validate_fresh:
  assumes "cache m h = None" and "Check a raw = Accept"
  shows "Validate a m h raw =
           (Valid, m\<lparr>cache := (cache m)(h \<mapsto> \<lparr>outcome = Valid, checkedAt = clock m\<rparr>),
                     clock := Suc (clock m), validated := validated m @ [raw]\<rparr>)"
  using assms by (simp add: Validate_def)

lemma Validate_memoized:
  assumes "cache m h = Some entry"
  shows "Validate a m h raw = (outcome entry, m)"
  using assms by (simp add: Validate_def)

lemma ex_check_accepts: "Check ex_app [1, 2, 3] = Accept"
  by (simp add: ex_app_def)

text \<open>
  C6 as stated fails: "for every raw transaction, admitting it twice returns \<open>Added\<close>, then
  \<open>AlreadyPresent\<close>, with exactly one validation". A transaction that the application
  rejects is \<open>Rejected\<close> by the first call, and so is one that exceeds the capacity; and in
  a pool that has admitted and removed the transaction before, the two calls return
  \<open>Added\<close> and \<open>AlreadyPresent\<close> without any validation, since the verdict is
  memoized.
\<close>

theorem admit_twice_counterexample:
  "fst (AdmitRaw ex_app (empty_pool 10) [0, 2, 3] None) =
     Rejected (ValidationRejected ''leading zero'') \<and>
   fst (AdmitRaw ex_app (empty_pool 2) [1, 2, 3] None) = Rejected CapacityExceeded \<and>
   store ex_pool_after_removal = [] \<and>
   fst (AdmitRaw ex_app ex_pool_after_removal [1, 2, 3] None) = Added \<and>
   fst (AdmitRaw ex_app (snd (AdmitRaw ex_app ex_pool_after_removal [1, 2, 3] None)) [1, 2, 3]
          None) = AlreadyPresent \<and>
   validated (snd (AdmitRaw ex_app (snd (AdmitRaw ex_app ex_pool_after_removal [1, 2, 3] None))
          [1, 2, 3] None)) = validated ex_pool_after_removal"
  by code_simp

text \<open>
  C6, amended. For raw bytes that the application accepts, whose hash is neither in the
  store nor in the cache, and that fit into the capacity left: admitting them returns
  \<open>Added\<close>, admitting the same bytes again returns \<open>AlreadyPresent\<close>, and across both calls
  the application validator is invoked exactly once, on these bytes.
\<close>

theorem admit_twice:
  assumes valid: "Check a raw = Accept"
    and absent: "\<not> Contains m (Tx_Hash a raw)"
    and fresh: "cache m (Tx_Hash a raw) = None"
    and room: "used_bytes m + length raw \<le> capacity m"
  shows "fst (AdmitRaw a m raw sender) = Added \<and>
         fst (AdmitRaw a (snd (AdmitRaw a m raw sender)) raw sender') = AlreadyPresent \<and>
         validated (snd (AdmitRaw a (snd (AdmitRaw a m raw sender)) raw sender')) =
           validated m @ [raw]"
proof -
  let ?h = "Tx_Hash a raw"
  define m1 where
    "m1 = m\<lparr>cache := (cache m)(?h \<mapsto> \<lparr>outcome = Valid, checkedAt = clock m\<rparr>),
            clock := Suc (clock m), validated := validated m @ [raw]\<rparr>"
  define rec where
    "rec = \<lparr>tx_hash = ?h, tx_raw = raw, tx_size = length raw, admittedAt = clock m1,
            senderPeer = sender\<rparr>"
  define m2 where
    "m2 = m1\<lparr>store := store m1 @ [rec], clock := Suc (clock m1),
             emitted := emitted m1 @ [AdmissionEvent ?h]\<rparr>"
  have v1: "Validate a m ?h raw = (Valid, m1)"
    unfolding m1_def by (rule Validate_fresh [OF fresh valid])
  have c1: "\<not> Contains m1 ?h" using absent by (simp add: m1_def Contains_def)
  have u1: "\<not> capacity m1 < used_bytes m1 + length raw"
    using room by (simp add: m1_def used_bytes_def)
  have first: "AdmitRaw a m raw sender = (Added, m2)"
    using v1 c1 u1 by (simp add: AdmitRaw_def Admit_def m2_def rec_def)
  have "cache m2 ?h = Some \<lparr>outcome = Valid, checkedAt = clock m\<rparr>"
    by (simp add: m2_def m1_def)
  then have v2: "Validate a m2 ?h raw = (Valid, m2)"
    by (simp add: Validate_memoized)
  have c2: "Contains m2 ?h" by (simp add: m2_def Contains_def rec_def)
  have second: "AdmitRaw a m2 raw sender' = (AlreadyPresent, m2)"
    using v2 c2 by (simp add: AdmitRaw_def Admit_def)
  have "validated m2 = validated m @ [raw]" by (simp add: m2_def m1_def)
  with first second show ?thesis by simp
qed

theorem admit_twice_witness:
  "Check ex_app [1, 2, 3] = Accept \<and>
   \<not> Contains (empty_pool 10) (Tx_Hash ex_app [1, 2, 3]) \<and>
   cache (empty_pool 10) (Tx_Hash ex_app [1, 2, 3]) = None \<and>
   used_bytes (empty_pool 10) + length [1 :: 8 word, 2, 3] \<le> capacity (empty_pool 10) \<and>
   fst (AdmitRaw ex_app (empty_pool 10) [1, 2, 3] None) = Added \<and>
   fst (AdmitRaw ex_app (snd (AdmitRaw ex_app (empty_pool 10) [1, 2, 3] None)) [1, 2, 3]
          (Some ''peer1'')) = AlreadyPresent \<and>
   validated (snd (AdmitRaw ex_app (snd (AdmitRaw ex_app (empty_pool 10) [1, 2, 3] None))
          [1, 2, 3] (Some ''peer1''))) = [[1, 2, 3]]"
proof -
  have a: "\<not> Contains (empty_pool 10) (Tx_Hash ex_app [1, 2, 3])"
    by (simp add: Contains_def empty_pool_def)
  have b: "cache (empty_pool 10) (Tx_Hash ex_app [1, 2, 3]) = None"
    by (simp add: empty_pool_def)
  have c: "used_bytes (empty_pool 10) + length [1 :: 8 word, 2, 3] \<le> capacity (empty_pool 10)"
    by (simp add: empty_pool_def used_bytes_def)
  have d: "validated (empty_pool 10) = []" by (simp add: empty_pool_def)
  from admit_twice [OF ex_check_accepts a b c, of None "Some ''peer1''"] ex_check_accepts a b c d
  show ?thesis by simp
qed

section \<open>Properties of the peer reconciliation and dissemination\<close>

lemma fst_update_peer: "map fst (update_peer p f ps) = map fst ps"
  by (induction ps) (auto simp: update_peer_def)

lemma map_of_update_peer:
  "map_of (update_peer p f ps) q = (if q = p then map_option f (map_of ps p) else map_of ps q)"
  by (induction ps) (auto simp: update_peer_def)

lemma set_update_peer:
  "(q, t) \<in> set (update_peer p f ps) \<Longrightarrow>
   (q, t) \<in> set ps \<or> (\<exists>s. (p, s) \<in> set ps \<and> q = p \<and> t = f s)"
  by (induction ps) (auto simp: update_peer_def split: if_splits)

lemma deliveries_append:
  "deliveries (lg @ lg') p h = foldl (count_delivery p h) (deliveries lg p h) lg'"
  by (simp add: deliveries_def)

lemma fst_disseminate_to: "fst (fst (disseminate_to h body origin (p, s))) = p"
  by (simp add: disseminate_to_def split: mode.splits)

lemma fst_disseminate:
  "map fst (map (\<lambda>ps. fst (disseminate_to h body origin ps)) ps) = map fst ps"
  by (induction ps) (auto simp: fst_disseminate_to)

lemma map_of_disseminate:
  "map_of (map (\<lambda>ps. fst (disseminate_to h body origin ps)) ps) q =
     map_option (\<lambda>s. snd (fst (disseminate_to h body origin (q, s)))) (map_of ps q)"
proof (induction ps)
  case Nil
  then show ?case by simp
next
  case (Cons x ps)
  obtain p s where x: "x = (p, s)" by (cases x)
  obtain p' s' where d: "fst (disseminate_to h body origin (p, s)) = (p', s')"
    by (cases "fst (disseminate_to h body origin (p, s))")
  from d fst_disseminate_to [of h body origin p s] have "p' = p" by simp
  with Cons x d show ?case by simp
qed

text \<open>The bodies of a hash that a broadcast sends to a peer.\<close>

lemma broadcast_count:
  assumes "distinct (map fst ps)"
  shows "foldl (count_delivery p h') n
           (concat (map (\<lambda>x. snd (disseminate_to h body origin x)) ps)) =
         n + (if h' = h \<and> (\<exists>s. map_of ps p = Some s \<and> origin \<noteq> Some p \<and> h \<notin> seenByPeer s \<and>
                  protocolVersion s = Push) then 1 else 0)"
  using assms
proof (induction ps arbitrary: n)
  case Nil
  then show ?case by simp
next
  case (Cons x ps)
  obtain q s where x: "x = (q, s)" by (cases x)
  from Cons.prems x have nq: "q \<notin> fst ` set ps" and d: "distinct (map fst ps)" by auto
  from nq have mq: "map_of ps q = None" by (simp add: map_of_eq_None_iff)
  show ?case
  proof (cases "q = p")
    case True
    with mq have mp: "map_of ps p = None" by simp
    show ?thesis
      using Cons.IH [OF d] x True mp
      by (cases "protocolVersion s")
        (auto simp: disseminate_to_def count_delivery_def)
  next
    case False
    show ?thesis
      using Cons.IH [OF d] x False
      by (cases "protocolVersion s")
        (auto simp: disseminate_to_def count_delivery_def)
  qed
qed

lemma fst_disseminate_comp:
  "map (fst \<circ> (\<lambda>ps. fst (disseminate_to h body origin ps))) ps = map fst ps"
  using fst_disseminate [of h body origin ps] by simp

lemma delivered_once_pool: "delivered_once (e\<lparr>pool := m\<rparr>) p h = delivered_once e p h"
  by (simp add: delivered_once_def)

lemma delivered_once_disseminate:
  assumes "delivered_once e p h"
  shows "delivered_once (disseminate h' body origin e) p h"
proof -
  from assms have d: "distinct (map fst (peers e))"
    and le: "deliveries (sent_log e) p h \<le> 1"
    and pos: "0 < deliveries (sent_log e) p h \<Longrightarrow>
         \<exists>s. map_of (peers e) p = Some s \<and> h \<in> seenByPeer s \<and> pairState s h = Delivered"
    by (auto simp: delivered_once_def)
  let ?n = "deliveries (sent_log e) p h"
  let ?e = "disseminate h' body origin e"
  have cnt: "deliveries (sent_log ?e) p h =
      ?n + (if h = h' \<and> (\<exists>s. map_of (peers e) p = Some s \<and> origin \<noteq> Some p \<and>
                h' \<notin> seenByPeer s \<and> protocolVersion s = Push) then 1 else 0)"
    by (simp add: disseminate_def deliveries_append broadcast_count [OF d])
  have mp: "map_of (peers ?e) p =
      map_option (\<lambda>s. snd (fst (disseminate_to h' body origin (p, s)))) (map_of (peers e) p)"
    by (simp add: disseminate_def map_of_disseminate)
  have d': "distinct (map fst (peers ?e))"
    using d by (simp add: disseminate_def fst_disseminate_comp)
  show ?thesis
  proof (cases "0 < ?n")
    case True
    from pos [OF True] obtain s where s: "map_of (peers e) p = Some s" "h \<in> seenByPeer s"
      "pairState s h = Delivered" by blast
    have same: "deliveries (sent_log ?e) p h = ?n"
      using cnt s by auto
    have "\<exists>t. map_of (peers ?e) p = Some t \<and> h \<in> seenByPeer t \<and> pairState t h = Delivered"
      using mp s
      by (cases "protocolVersion s")
        (auto simp: disseminate_to_def mark_delivered_def mark_announced_def)
    with d' le same show ?thesis by (simp add: delivered_once_def)
  next
    case False
    then have z: "?n = 0" by simp
    show ?thesis
    proof (cases "h = h' \<and> (\<exists>s. map_of (peers e) p = Some s \<and> origin \<noteq> Some p \<and>
                h' \<notin> seenByPeer s \<and> protocolVersion s = Push)")
      case True
      then obtain s where s: "map_of (peers e) p = Some s" "origin \<noteq> Some p"
        "h' \<notin> seenByPeer s" "protocolVersion s = Push" and hh: "h = h'" by blast
      have one: "deliveries (sent_log ?e) p h = 1" using cnt z True by simp
      have "\<exists>t. map_of (peers ?e) p = Some t \<and> h \<in> seenByPeer t \<and> pairState t h = Delivered"
        using mp s hh by (auto simp: disseminate_to_def mark_delivered_def)
      with d' one show ?thesis by (simp add: delivered_once_def)
    next
      case False
      then have "deliveries (sent_log ?e) p h = 0" using cnt z by auto
      with d' show ?thesis by (simp add: delivered_once_def)
    qed
  qed
qed

lemma delivered_once_admit:
  assumes "delivered_once e p h"
  shows "delivered_once (admit_and_disseminate a e raw origin) p h"
proof -
  obtain r m where am: "AdmitRaw a (pool e) raw origin = (r, m)"
    by (cases "AdmitRaw a (pool e) raw origin")
  from assms have "delivered_once (e\<lparr>pool := m\<rparr>) p h" by (simp add: delivered_once_pool)
  then show ?thesis
    using am delivered_once_disseminate [of "e\<lparr>pool := m\<rparr>" p h "Tx_Hash a raw" raw origin]
    by (cases r) (simp_all add: admit_and_disseminate_def)
qed

text \<open>A change of one peer's state that keeps what a delivery has established.\<close>

lemma delivered_once_update:
  assumes inv: "delivered_once e p h"
    and keep: "\<And>s. q = p \<Longrightarrow> map_of (peers e) p = Some s \<Longrightarrow> h \<in> seenByPeer s \<Longrightarrow>
                 pairState s h = Delivered \<Longrightarrow>
                 h \<in> seenByPeer (f s) \<and> pairState (f s) h = Delivered"
    and quiet: "foldl (count_delivery p h) (deliveries (sent_log e) p h) lg =
                  deliveries (sent_log e) p h"
  shows "delivered_once (e\<lparr>peers := update_peer q f (peers e), sent_log := sent_log e @ lg\<rparr>) p h"
proof -
  let ?e = "e\<lparr>peers := update_peer q f (peers e), sent_log := sent_log e @ lg\<rparr>"
  from inv have d: "distinct (map fst (peers e))"
    and le: "deliveries (sent_log e) p h \<le> 1"
    and pos: "0 < deliveries (sent_log e) p h \<Longrightarrow>
         \<exists>s. map_of (peers e) p = Some s \<and> h \<in> seenByPeer s \<and> pairState s h = Delivered"
    by (auto simp: delivered_once_def)
  have cnt: "deliveries (sent_log ?e) p h = deliveries (sent_log e) p h"
    using quiet by (simp add: deliveries_append)
  have d': "distinct (map fst (peers ?e))" using d by (simp add: fst_update_peer)
  have "\<exists>t. map_of (peers ?e) p = Some t \<and> h \<in> seenByPeer t \<and> pairState t h = Delivered"
    if "0 < deliveries (sent_log e) p h"
  proof -
    from pos [OF that] obtain s where s: "map_of (peers e) p = Some s" "h \<in> seenByPeer s"
      "pairState s h = Delivered" by blast
    show ?thesis
    proof (cases "q = p")
      case True
      with s keep [OF True s(1) s(2) s(3)] show ?thesis by (simp add: map_of_update_peer)
    next
      case False
      with s show ?thesis by (simp add: map_of_update_peer)
    qed
  qed
  with d' le cnt show ?thesis by (simp add: delivered_once_def)
qed

lemma delivered_once_update_quiet:
  assumes inv: "delivered_once e p h"
    and keep: "\<And>s. q = p \<Longrightarrow> map_of (peers e) p = Some s \<Longrightarrow> h \<in> seenByPeer s \<Longrightarrow>
                 pairState s h = Delivered \<Longrightarrow>
                 h \<in> seenByPeer (f s) \<and> pairState (f s) h = Delivered"
  shows "delivered_once (e\<lparr>peers := update_peer q f (peers e)\<rparr>) p h"
proof -
  have "delivered_once (e\<lparr>peers := update_peer q f (peers e), sent_log := sent_log e @ []\<rparr>) p h"
  proof (rule delivered_once_update [OF inv])
    show "h \<in> seenByPeer (f s) \<and> pairState (f s) h = Delivered"
      if "q = p" "map_of (peers e) p = Some s" "h \<in> seenByPeer s" "pairState s h = Delivered"
      for s
      using keep that by blast
    show "foldl (count_delivery p h) (deliveries (sent_log e) p h) [] =
            deliveries (sent_log e) p h"
      by simp
  qed
  then show ?thesis by simp
qed

end
